theory Spec2Isabelle
  imports Complex_Main "HOL-Library.Sublist" "HOL-Library.Word"
begin

section \<open>JavaScript values\<close>

text \<open>
  A JavaScript string is modelled by the byte sequence of its UTF-8 encoding, so that
  \<^verbatim>\<open>Buffer.byteLength(s, 'utf8')\<close> and the length of \<^verbatim>\<open>Buffer.from(s)\<close> are the length of
  the list. The searches of the source look for ASCII needles only, and an ASCII byte
  occurs in a UTF-8 encoding only as the character itself, so \<^verbatim>\<open>includes\<close> and
  \<^verbatim>\<open>startsWith\<close> agree on both views. An optional property is an \<open>option\<close>; the
  empty string is falsy.
\<close>

definition truthy :: "string option \<Rightarrow> bool" where
  "truthy v = (case v of None \<Rightarrow> False | Some s \<Rightarrow> s \<noteq> [])"

fun str_includes :: "string \<Rightarrow> string \<Rightarrow> bool" where
  "str_includes [] needle = (needle = [])"
| "str_includes (c # cs) needle = (prefix needle (c # cs) \<or> str_includes cs needle)"

definition startsWith :: "string \<Rightarrow> string \<Rightarrow> bool" where
  "startsWith s p = prefix p s"

definition byteLength :: "string \<Rightarrow> nat" where
  "byteLength s = length s"

definition digitChar :: "nat \<Rightarrow> char" where
  "digitChar n = ''0123456789abcdef'' ! (n mod 16)"

fun decimal :: "nat \<Rightarrow> string" where
  "decimal n = (if n < 10 then [digitChar n] else decimal (n div 10) @ [digitChar (n mod 10)])"

declare decimal.simps [simp del]

text \<open>
  The errors the code throws or receives. \<open>WebexApiRequestError\<close> carries message,
  statusCode, trackingId and details, as the class at the end of send.ts does.
  \<open>FetchError\<close> is the error with which node-fetch rejects when the request itself fails:
  it carries a message, a type and, for a system error, the error code of the cause
  (\<^verbatim>\<open>error.code\<close>, such as ECONNRESET).
\<close>

datatype JsError =
    Error string
  | WebexApiRequestError string nat "string option" "string list option"
  | RangeError string
  | WebhookValidationError string
  | FetchError string string "string option"

fun error_message :: "JsError \<Rightarrow> string" where
  "error_message (Error m) = m"
| "error_message (WebexApiRequestError m _ _ _) = m"
| "error_message (RangeError m) = m"
| "error_message (WebhookValidationError m) = m"
| "error_message (FetchError m _ _) = m"

section \<open>types.ts\<close>

datatype DmPolicy = Allow | Deny | Allowlisted | Allowlist | Pairing

record WebexChannelConfig =
  token :: string
  webhookUrl :: string
  dmPolicy :: "DmPolicy option"
  allowFrom :: "string list option"
  webhookSecret :: "string option"
  apiBaseUrl :: "string option"
  maxRetries :: "int option"
  retryDelayMs :: "real option"

datatype AdaptiveCard = AdaptiveCard string "string list"

record WebexAttachment =
  contentType :: string
  att_content :: AdaptiveCard

record WebexMessage =
  msg_id :: string
  msg_roomId :: string
  msg_roomType :: string
  msg_toPersonId :: "string option"
  msg_toPersonEmail :: "string option"
  msg_text :: "string option"
  msg_markdown :: "string option"
  msg_html :: "string option"
  msg_files :: "string list option"
  msg_personId :: string
  msg_personEmail :: string
  msg_mentionedPeople :: "string list option"
  msg_mentionedGroups :: "string list option"
  msg_attachments :: "WebexAttachment list option"
  msg_created :: string
  msg_updated :: "string option"
  msg_parentId :: "string option"

record CreateMessageRequest =
  req_roomId :: "string option"
  req_toPersonId :: "string option"
  req_toPersonEmail :: "string option"
  req_text :: "string option"
  req_markdown :: "string option"
  req_files :: "string list option"
  req_attachments :: "WebexAttachment list option"
  req_parentId :: "string option"

record WebexApiError =
  err_message :: "string option"
  err_errors :: "string list option"
  err_trackingId :: "string option"

record OutboundContent =
  c_text :: "string option"
  c_markdown :: "string option"
  c_files :: "string list option"
  c_card :: "AdaptiveCard option"

record OpenClawOutboundMessage =
  out_to :: string
  out_content :: OutboundContent
  out_parentId :: "string option"

record RetryOptions =
  ro_maxRetries :: int
  ro_retryDelayMs :: real

record RequestOptions =
  opt_method :: string
  opt_path :: string
  opt_body :: "CreateMessageRequest option"
  opt_headers :: "(string \<times> string) list option"

section \<open>The network\<close>

text \<open>
  \<^verbatim>\<open>fetch\<close> is the environment. A call either rejects (a network-level failure) or
  resolves to a response. \<open>resp_json\<close> is what \<^verbatim>\<open>response.json()\<close> gives when the body
  is read as the result type (\<open>Inl\<close>: the promise rejects), \<open>resp_errorData\<close> what it
  gives when the body of a failed response is read as a \<^verbatim>\<open>WebexApiError\<close> (\<open>None\<close>: the
  body is not JSON). The environment answers a request by its content and by the number
  of calls made before it, so that a scripted sequence of outcomes can be expressed.
\<close>

record HttpRequest =
  http_url :: string
  http_method :: string
  http_headers :: "(string \<times> string) list"
  http_body :: "CreateMessageRequest option"

record 'a Response =
  resp_ok :: bool
  resp_status :: nat
  resp_statusText :: string
  resp_json :: "JsError + 'a"
  resp_errorData :: "WebexApiError option"

datatype 'a FetchOutcome = Rejected JsError | Resolved "'a Response"

type_synonym Fetch = "HttpRequest \<Rightarrow> nat \<Rightarrow> WebexMessage FetchOutcome"

text \<open>What one operation did: the requests it issued and the delays it slept, in order.\<close>

record Trace =
  fetched :: "HttpRequest list"
  slept :: "real list"

definition noTrace :: Trace where
  "noTrace = \<lparr>fetched = [], slept = []\<rparr>"

section \<open>send.ts\<close>

definition DEFAULT_API_BASE_URL :: string where
  "DEFAULT_API_BASE_URL = ''https://webexapis.com/v1''"

definition DEFAULT_MAX_RETRIES :: int where
  "DEFAULT_MAX_RETRIES = 3"

definition DEFAULT_RETRY_DELAY_MS :: real where
  "DEFAULT_RETRY_DELAY_MS = 1000"

definition RETRY_STATUS_CODES :: "nat list" where
  "RETRY_STATUS_CODES = [429, 502, 503, 504]"

record WebexSender =
  sender_config :: WebexChannelConfig
  sender_apiBaseUrl :: string
  sender_retryOptions :: RetryOptions

definition newWebexSender :: "WebexChannelConfig \<Rightarrow> WebexSender" where
  "newWebexSender config =
     \<lparr>sender_config = config,
      sender_apiBaseUrl =
        (if truthy (apiBaseUrl config) then the (apiBaseUrl config) else DEFAULT_API_BASE_URL),
      sender_retryOptions =
        \<lparr>ro_maxRetries = (case maxRetries config of Some m \<Rightarrow> m | None \<Rightarrow> DEFAULT_MAX_RETRIES),
         ro_retryDelayMs =
           (case retryDelayMs config of Some d \<Rightarrow> d | None \<Rightarrow> DEFAULT_RETRY_DELAY_MS)\<rparr>\<rparr>"

definition emptyRequest :: CreateMessageRequest where
  "emptyRequest =
     \<lparr>req_roomId = None, req_toPersonId = None, req_toPersonEmail = None, req_text = None,
      req_markdown = None, req_files = None, req_attachments = None, req_parentId = None\<rparr>"

text \<open>
  \<^verbatim>\<open>buildMessageRequest\<close>. \<^verbatim>\<open>Buffer.from(to, 'base64').toString('utf-8')\<close> is a library
  call inside a try block: it is the parameter \<open>decodeBase64\<close>, whose \<open>Inl\<close> is the
  exception the catch clause handles.
\<close>

definition buildMessageRequest ::
  "(string \<Rightarrow> JsError + string) \<Rightarrow> OpenClawOutboundMessage \<Rightarrow> CreateMessageRequest" where
  "buildMessageRequest decodeBase64 message =
     (let request = emptyRequest;
          to = out_to message;
          request =
            (if str_includes to ''@'' then request\<lparr>req_toPersonEmail := Some to\<rparr>
             else if startsWith to ''Y2lzY29zcGFyazovL3'' then
               (case decodeBase64 to of
                  Inr decoded \<Rightarrow>
                    if str_includes decoded ''/ROOM/'' then request\<lparr>req_roomId := Some to\<rparr>
                    else if str_includes decoded ''/PEOPLE/''
                      then request\<lparr>req_toPersonId := Some to\<rparr>
                    else request\<lparr>req_roomId := Some to\<rparr>
                | Inl _ \<Rightarrow> request\<lparr>req_roomId := Some to\<rparr>)
             else request\<lparr>req_roomId := Some to\<rparr>);
          request =
            (if truthy (c_text (out_content message))
             then request\<lparr>req_markdown := c_text (out_content message)\<rparr> else request);
          request =
            (if truthy (c_markdown (out_content message))
             then request\<lparr>req_markdown := c_markdown (out_content message)\<rparr> else request);
          request =
            (case c_files (out_content message) of
               Some (f # _) \<Rightarrow> request\<lparr>req_files := Some [f]\<rparr>
             | _ \<Rightarrow> request);
          request =
            (case c_card (out_content message) of
               Some adaptiveCard \<Rightarrow>
                 request\<lparr>req_attachments :=
                   Some [\<lparr>contentType = ''application/vnd.microsoft.card.adaptive'',
                          att_content = adaptiveCard\<rparr>]\<rparr>
             | None \<Rightarrow> request);
          request =
            (if truthy (out_parentId message)
             then request\<lparr>req_parentId := out_parentId message\<rparr> else request)
      in request)"

definition nonEmpty :: "'a list option \<Rightarrow> bool" where
  "nonEmpty v = (case v of None \<Rightarrow> False | Some xs \<Rightarrow> xs \<noteq> [])"

definition validateMessageRequest :: "CreateMessageRequest \<Rightarrow> JsError + unit" where
  "validateMessageRequest request =
     (if \<not> truthy (req_roomId request) \<and> \<not> truthy (req_toPersonId request)
         \<and> \<not> truthy (req_toPersonEmail request)
      then Inl (Error ''Message must have a target: roomId, toPersonId, or toPersonEmail'')
      else if \<not> truthy (req_text request) \<and> \<not> truthy (req_markdown request)
         \<and> \<not> nonEmpty (req_files request) \<and> \<not> nonEmpty (req_attachments request)
      then Inl (Error ''Message must have content: text, markdown, files, or attachments'')
      else if truthy (req_text request) \<and> byteLength (the (req_text request)) > 7439
      then Inl (Error ''Message text exceeds maximum size of 7439 bytes'')
      else Inr ())"

definition parseErrorResponse :: "'a Response \<Rightarrow> JsError" where
  "parseErrorResponse response =
     (let errorData = resp_errorData response;
          message =
            (case errorData of
               Some d \<Rightarrow>
                 if truthy (err_message d) then the (err_message d)
                 else ''HTTP '' @ decimal (resp_status response) @ '': '' @ resp_statusText response
             | None \<Rightarrow>
                 ''HTTP '' @ decimal (resp_status response) @ '': '' @ resp_statusText response)
      in WebexApiRequestError message (resp_status response)
           (case errorData of Some d \<Rightarrow> err_trackingId d | None \<Rightarrow> None)
           (case errorData of Some d \<Rightarrow> err_errors d | None \<Rightarrow> None))"

text \<open>
  An object literal with a spread, \<^verbatim>\<open>{a: x, b: y, ...extra}\<close>: a property of \<open>extra\<close>
  replaces the value of a property of the same name and is added at the end otherwise.
\<close>

fun setProperty :: "string \<Rightarrow> string \<Rightarrow> (string \<times> string) list \<Rightarrow> (string \<times> string) list" where
  "setProperty k v [] = [(k, v)]"
| "setProperty k v ((k', v') # kvs) =
     (if k = k' then (k, v) # kvs else (k', v') # setProperty k v kvs)"

definition spread :: "(string \<times> string) list \<Rightarrow> (string \<times> string) list \<Rightarrow> (string \<times> string) list" where
  "spread props extra = foldl (\<lambda>acc (k, v). setProperty k v acc) props extra"

definition httpRequestOf :: "WebexSender \<Rightarrow> RequestOptions \<Rightarrow> HttpRequest" where
  "httpRequestOf sender options =
     \<lparr>http_url = sender_apiBaseUrl sender @ opt_path options,
      http_method = opt_method options,
      http_headers =
        spread
          [(''Authorization'', ''Bearer '' @ token (sender_config sender)),
           (''Content-Type'', ''application/json'')]
          (case opt_headers options of Some hs \<Rightarrow> hs | None \<Rightarrow> []),
      http_body = opt_body options\<rparr>"

text \<open>
  \<^verbatim>\<open>executeRequest\<close>: one call of \<^verbatim>\<open>fetch\<close>, answered by the environment, and what
  the function makes of the answer (\<open>responseResult\<close>, the lines after the \<^verbatim>\<open>await\<close>).
  The result \<open>None\<close> is the \<^verbatim>\<open>undefined\<close> of a 204 response.
\<close>

definition responseResult :: "WebexMessage FetchOutcome \<Rightarrow> JsError + WebexMessage option" where
  "responseResult outcome =
     (case outcome of
        Rejected e \<Rightarrow> Inl e
      | Resolved response \<Rightarrow>
          if \<not> resp_ok response then Inl (parseErrorResponse response)
          else if resp_status response = 204 then Inr None
          else (case resp_json response of Inl e \<Rightarrow> Inl e | Inr v \<Rightarrow> Inr (Some v)))"

definition executeRequest ::
  "WebexSender \<Rightarrow> Fetch \<Rightarrow> RequestOptions \<Rightarrow> Trace \<Rightarrow> (JsError + WebexMessage option) \<times> Trace" where
  "executeRequest sender fetch options tr =
     (let rq = httpRequestOf sender options
      in (responseResult (fetch rq (length (fetched tr))), tr\<lparr>fetched := fetched tr @ [rq]\<rparr>))"

fun shouldRetry :: "JsError \<Rightarrow> nat \<Rightarrow> bool" where
  "shouldRetry (WebexApiRequestError m statusCode t d) attempt =
     (statusCode \<in> set RETRY_STATUS_CODES)"
| "shouldRetry error attempt =
     (str_includes (error_message error) ''ECONNRESET''
      \<or> str_includes (error_message error) ''ETIMEDOUT''
      \<or> str_includes (error_message error) ''ENOTFOUND'')"

text \<open>
  \<^verbatim>\<open>calculateBackoff\<close>, over the real numbers: the rounding of IEEE doubles is not
  modelled. \<open>rnd\<close> is the value \<^verbatim>\<open>Math.random()\<close> returns, a number in \<open>[0, 1)\<close>.
\<close>

definition calculateBackoff :: "WebexSender \<Rightarrow> nat \<Rightarrow> real \<Rightarrow> real" where
  "calculateBackoff sender attempt rnd =
     (let baseDelay = ro_retryDelayMs (sender_retryOptions sender);
          exponentialDelay = baseDelay * 2 powr (real attempt - 1);
          jitter = rnd * 0.3 * exponentialDelay
      in min (exponentialDelay + jitter) 30000)"

text \<open>
  The loop of \<^verbatim>\<open>request\<close>. \<open>attempt\<close> and \<open>lastError\<close> are its two variables; the
  \<open>k\<close>-th sleep draws the \<open>k\<close>-th random number. Leaving the loop throws
  \<^verbatim>\<open>lastError || new Error('Request failed after retries')\<close>.
\<close>

definition throwLast :: "JsError option \<Rightarrow> JsError" where
  "throwLast lastError =
     (case lastError of Some e \<Rightarrow> e | None \<Rightarrow> Error ''Request failed after retries'')"

function request_loop ::
  "WebexSender \<Rightarrow> Fetch \<Rightarrow> (nat \<Rightarrow> real) \<Rightarrow> RequestOptions \<Rightarrow> nat \<Rightarrow> JsError option \<Rightarrow> Trace
     \<Rightarrow> (JsError + WebexMessage option) \<times> Trace" where
  "request_loop sender fetch random options attempt lastError tr =
     (if int attempt \<le> ro_maxRetries (sender_retryOptions sender) then
        (case executeRequest sender fetch options tr of
           (Inr v, tr') \<Rightarrow> (Inr v, tr')
         | (Inl error, tr') \<Rightarrow>
             if int (attempt + 1) > ro_maxRetries (sender_retryOptions sender)
               then (Inl (throwLast (Some error)), tr')
             else if \<not> shouldRetry error (attempt + 1)
               then (Inl (throwLast (Some error)), tr')
             else request_loop sender fetch random options (attempt + 1) (Some error)
                    (tr'\<lparr>slept := slept tr' @
                       [calculateBackoff sender (attempt + 1) (random (length (slept tr')))]\<rparr>))
      else (Inl (throwLast lastError), tr))"
  by pat_completeness auto
termination
  by (relation "measure (\<lambda>(sender, fetch, random, options, attempt, lastError, tr).
        nat (ro_maxRetries (sender_retryOptions sender) + 1 - int attempt))") auto

declare request_loop.simps [simp del]

definition request ::
  "WebexSender \<Rightarrow> Fetch \<Rightarrow> (nat \<Rightarrow> real) \<Rightarrow> RequestOptions
     \<Rightarrow> (JsError + WebexMessage option) \<times> Trace" where
  "request sender fetch random options =
     request_loop sender fetch random options 0 None noTrace"

definition createMessage ::
  "WebexSender \<Rightarrow> Fetch \<Rightarrow> (nat \<Rightarrow> real) \<Rightarrow> CreateMessageRequest
     \<Rightarrow> (JsError + WebexMessage option) \<times> Trace" where
  "createMessage sender fetch random req =
     (case validateMessageRequest req of
        Inl e \<Rightarrow> (Inl e, noTrace)
      | Inr _ \<Rightarrow>
          request sender fetch random
            \<lparr>opt_method = ''POST'', opt_path = ''/messages'', opt_body = Some req,
             opt_headers = None\<rparr>)"

definition send ::
  "WebexSender \<Rightarrow> (string \<Rightarrow> JsError + string) \<Rightarrow> Fetch \<Rightarrow> (nat \<Rightarrow> real)
     \<Rightarrow> OpenClawOutboundMessage \<Rightarrow> (JsError + WebexMessage option) \<times> Trace" where
  "send sender decodeBase64 fetch random message =
     createMessage sender fetch random (buildMessageRequest decodeBase64 message)"

definition sendToRoom ::
  "WebexSender \<Rightarrow> Fetch \<Rightarrow> (nat \<Rightarrow> real) \<Rightarrow> string \<Rightarrow> string \<Rightarrow> string option
     \<Rightarrow> (JsError + WebexMessage option) \<times> Trace" where
  "sendToRoom sender fetch random roomId txt markdown =
     createMessage sender fetch random
       (emptyRequest\<lparr>req_roomId := Some roomId, req_text := Some txt, req_markdown := markdown\<rparr>)"

section \<open>webhook.ts\<close>

record WebexWebhookData =
  data_id :: string
  data_roomId :: string
  data_roomType :: string
  data_personId :: string
  data_personEmail :: string
  data_created :: string
  data_mentionedPeople :: "string list option"
  data_mentionedGroups :: "string list option"
  data_files :: "string list option"

text \<open>
  The payload is the parsed JSON body of the notification, so \<open>resource\<close>, \<open>event\<close> and
  \<open>roomType\<close> are the strings the provider sent, whatever the declared union types say.
\<close>

record WebexWebhookPayload =
  wh_id :: string
  wh_name :: string
  wh_targetUrl :: string
  wh_resource :: string
  wh_event :: string
  wh_filter :: "string option"
  wh_orgId :: string
  wh_createdBy :: string
  wh_appId :: string
  wh_ownedBy :: string
  wh_status :: string
  wh_created :: string
  wh_actorId :: string
  wh_data :: WebexWebhookData

record OpenClawAttachment =
  oa_type :: string
  oa_url :: "string option"
  oa_content :: "AdaptiveCard option"

record EnvelopeAuthor =
  author_id :: string
  author_email :: "string option"
  author_displayName :: "string option"
  author_isBot :: bool

record EnvelopeContent =
  ec_text :: "string option"
  ec_markdown :: "string option"
  ec_attachments :: "OpenClawAttachment list option"

record EnvelopeMetadata =
  md_roomType :: string
  md_roomId :: string
  md_timestamp :: string
  md_mentions :: "string list option"
  md_parentId :: "string option"
  md_raw :: WebexMessage

record OpenClawEnvelope =
  env_id :: string
  env_channel :: string
  env_conversationId :: string
  env_author :: EnvelopeAuthor
  env_content :: EnvelopeContent
  env_metadata :: EnvelopeMetadata

record BotInfo =
  bot_id :: string
  bot_displayName :: string
  bot_emails :: "string list"

record WebexWebhookHandler =
  handler_config :: WebexChannelConfig
  handler_apiBaseUrl :: string
  handler_botId :: "string option"

definition newWebexWebhookHandler :: "WebexChannelConfig \<Rightarrow> WebexWebhookHandler" where
  "newWebexWebhookHandler config =
     \<lparr>handler_config = config,
      handler_apiBaseUrl =
        (if truthy (apiBaseUrl config) then the (apiBaseUrl config) else DEFAULT_API_BASE_URL),
      handler_botId = None\<rparr>"

definition getBotInfo ::
  "WebexWebhookHandler \<Rightarrow> (HttpRequest \<Rightarrow> BotInfo FetchOutcome) \<Rightarrow> JsError + BotInfo" where
  "getBotInfo handler fetchBot =
     (case fetchBot
             \<lparr>http_url = handler_apiBaseUrl handler @ ''/people/me'', http_method = ''GET'',
              http_headers =
                [(''Authorization'', ''Bearer '' @ token (handler_config handler)),
                 (''Content-Type'', ''application/json'')],
              http_body = None\<rparr> of
        Rejected e \<Rightarrow> Inl e
      | Resolved response \<Rightarrow>
          if \<not> resp_ok response
          then Inl (Error (''Failed to get bot info: '' @ decimal (resp_status response) @ '' ''
                            @ resp_statusText response))
          else resp_json response)"

definition handler_initialize ::
  "WebexWebhookHandler \<Rightarrow> (HttpRequest \<Rightarrow> BotInfo FetchOutcome) \<Rightarrow> JsError + WebexWebhookHandler" where
  "handler_initialize handler fetchBot =
     (case getBotInfo handler fetchBot of
        Inl e \<Rightarrow> Inl e
      | Inr botInfo \<Rightarrow> Inr (handler\<lparr>handler_botId := Some (bot_id botInfo)\<rparr>))"

definition isAllowedSender :: "WebexWebhookHandler \<Rightarrow> WebexWebhookData \<Rightarrow> bool" where
  "isAllowedSender handler d =
     (case dmPolicy (handler_config handler) of
        Some Allow \<Rightarrow> True
      | Some Deny \<Rightarrow> False
      | Some Allowlisted \<Rightarrow>
          (case allowFrom (handler_config handler) of
             None \<Rightarrow> False
           | Some [] \<Rightarrow> False
           | Some xs \<Rightarrow> data_personId d \<in> set xs \<or> data_personEmail d \<in> set xs)
      | _ \<Rightarrow> False)"

definition fetchMessage :: "WebexWebhookHandler \<Rightarrow> Fetch \<Rightarrow> string \<Rightarrow> JsError + WebexMessage" where
  "fetchMessage handler fetch messageId =
     (case fetch
             \<lparr>http_url = handler_apiBaseUrl handler @ ''/messages/'' @ messageId,
              http_method = ''GET'',
              http_headers =
                [(''Authorization'', ''Bearer '' @ token (handler_config handler)),
                 (''Content-Type'', ''application/json'')],
              http_body = None\<rparr> 0 of
        Rejected e \<Rightarrow> Inl e
      | Resolved response \<Rightarrow>
          if \<not> resp_ok response
          then Inl (Error (''Failed to fetch message: '' @ decimal (resp_status response) @ '' ''
                            @ resp_statusText response))
          else resp_json response)"

definition normalizeMessage :: "WebexMessage \<Rightarrow> OpenClawEnvelope" where
  "normalizeMessage message =
     (let attachments =
            map (\<lambda>fileUrl. \<lparr>oa_type = ''file'', oa_url = Some fileUrl, oa_content = None\<rparr>)
              (case msg_files message of Some fs \<Rightarrow> fs | None \<Rightarrow> [])
            @ map (\<lambda>attachment.
                    \<lparr>oa_type = ''card'', oa_url = None, oa_content = Some (att_content attachment)\<rparr>)
                (case msg_attachments message of Some as \<Rightarrow> as | None \<Rightarrow> [])
      in \<lparr>env_id = msg_id message,
          env_channel = ''webex'',
          env_conversationId = msg_roomId message,
          env_author =
            \<lparr>author_id = msg_personId message, author_email = Some (msg_personEmail message),
             author_displayName = None, author_isBot = False\<rparr>,
          env_content =
            \<lparr>ec_text = msg_text message, ec_markdown = msg_markdown message,
             ec_attachments = (if attachments \<noteq> [] then Some attachments else None)\<rparr>,
          env_metadata =
            \<lparr>md_roomType = msg_roomType message, md_roomId = msg_roomId message,
             md_timestamp = msg_created message, md_mentions = msg_mentionedPeople message,
             md_parentId = msg_parentId message, md_raw = message\<rparr>\<rparr>)"

text \<open>
  \<^verbatim>\<open>handleWebhook\<close> as webhook.ts declares it: its only parameter is the payload.
  \<open>Inr None\<close> is the \<^verbatim>\<open>null\<close> result, \<open>Inl\<close> a rejection.
\<close>

definition handleWebhook ::
  "WebexWebhookHandler \<Rightarrow> Fetch \<Rightarrow> WebexWebhookPayload \<Rightarrow> JsError + OpenClawEnvelope option" where
  "handleWebhook handler fetch payload =
     (if wh_resource payload \<noteq> ''messages'' \<or> wh_event payload \<noteq> ''created'' then Inr None
      else if Some (data_personId (wh_data payload)) = handler_botId handler then Inr None
      else if data_roomType (wh_data payload) = ''direct''
              \<and> \<not> isAllowedSender handler (wh_data payload) then Inr None
      else (case fetchMessage handler fetch (data_id (wh_data payload)) of
              Inl e \<Rightarrow> Inl e
            | Inr message \<Rightarrow> Inr (Some (normalizeMessage message))))"

text \<open>
  \<^verbatim>\<open>crypto.timingSafeEqual\<close> throws a \<^verbatim>\<open>RangeError\<close> when its two buffers differ in
  byte length, and compares them otherwise.
\<close>

definition timingSafeEqual :: "string \<Rightarrow> string \<Rightarrow> JsError + bool" where
  "timingSafeEqual a b =
     (if length a \<noteq> length b then Inl (RangeError ''Input buffers must have the same byte length'')
      else Inr (a = b))"

text \<open>
  \<^verbatim>\<open>hmac.digest('hex')\<close>: the 160 bits of a SHA-1 digest as 40 lower-case hexadecimal
  digits, the most significant first.
\<close>

definition hexDigest :: "160 word \<Rightarrow> string" where
  "hexDigest w = map (\<lambda>i. digitChar (unat (drop_bit (4 * i) w))) (rev [0..<40])"

text \<open>
  \<^verbatim>\<open>verifySignature\<close>. The keyed hash (\<^verbatim>\<open>crypto.createHmac('sha1', secret)\<close>) and
  \<^verbatim>\<open>JSON.stringify\<close> are library functions: they are the parameters \<open>hmacSha1\<close> (of a key
  and a message) and \<open>stringify\<close>.
\<close>

definition verifySignature ::
  "(string \<Rightarrow> string \<Rightarrow> 160 word) \<Rightarrow> (WebexWebhookPayload \<Rightarrow> string) \<Rightarrow> WebexWebhookHandler
     \<Rightarrow> WebexWebhookPayload \<Rightarrow> string \<Rightarrow> string option \<Rightarrow> JsError + bool" where
  "verifySignature hmacSha1 stringify handler payload signature originalBody =
     (if \<not> truthy (webhookSecret (handler_config handler)) then Inr True
      else
        let expectedSignature =
              hexDigest (hmacSha1 (the (webhookSecret (handler_config handler)))
                (case originalBody of Some body \<Rightarrow> body | None \<Rightarrow> stringify payload))
        in timingSafeEqual signature expectedSignature)"

section \<open>channel.ts\<close>

text \<open>
  A subscriber (\<^verbatim>\<open>WebhookHandler\<close>) is a JavaScript function, compared by identity in
  \<^verbatim>\<open>offMessage\<close>: it is modelled by an identifier, and what calling it does by the
  parameter \<open>invoke\<close> of \<open>notifyHandlers\<close>.
\<close>

type_synonym WebhookHandler = nat

record WebexChannel =
  ch_config :: "WebexChannelConfig option"
  ch_sender :: "WebexSender option"
  ch_webhookHandler :: "WebexWebhookHandler option"
  ch_messageHandlers :: "WebhookHandler list"
  ch_initialized :: bool

definition newWebexChannel :: WebexChannel where
  "newWebexChannel =
     \<lparr>ch_config = None, ch_sender = None, ch_webhookHandler = None, ch_messageHandlers = [],
      ch_initialized = False\<rparr>"

text \<open>\<^verbatim>\<open>new URL(config.webhookUrl)\<close> is the parameter \<open>validUrl\<close>.\<close>

definition validateConfig :: "(string \<Rightarrow> bool) \<Rightarrow> WebexChannelConfig \<Rightarrow> JsError + unit" where
  "validateConfig validUrl config =
     (if token config = [] then Inl (Error ''Webex channel config requires a token'')
      else if webhookUrl config = [] then Inl (Error ''Webex channel config requires a webhookUrl'')
      else if dmPolicy config = None then Inl (Error ''Webex channel config requires a dmPolicy'')
      else if dmPolicy config = Some Allowlisted \<and> \<not> nonEmpty (allowFrom config)
        then Inl (Error (''Webex channel config requires allowFrom when dmPolicy is ''
                    @ [CHR 0x22] @ ''allowlisted'' @ [CHR 0x22]))
      else if \<not> validUrl (webhookUrl config)
        then Inl (Error ''Webex channel config webhookUrl must be a valid URL'')
      else Inr ())"

text \<open>
  \<^verbatim>\<open>{...DEFAULT_CONFIG, ...config}\<close>: a default fills a property the configuration does
  not have. \<open>dmPolicy\<close> is present whenever the merge is reached, since
  \<^verbatim>\<open>validateConfig\<close> has rejected a configuration without it.
\<close>

definition mergeDefaults :: "WebexChannelConfig \<Rightarrow> WebexChannelConfig" where
  "mergeDefaults config =
     config\<lparr>apiBaseUrl := (case apiBaseUrl config of None \<Rightarrow> Some ''https://webexapis.com/v1''
                            | Some u \<Rightarrow> Some u),
            maxRetries := (case maxRetries config of None \<Rightarrow> Some 3 | Some m \<Rightarrow> Some m),
            retryDelayMs := (case retryDelayMs config of None \<Rightarrow> Some 1000 | Some d \<Rightarrow> Some d)\<rparr>"

text \<open>
  \<^verbatim>\<open>initialize\<close>: the fields are assigned before the webhook handler fetches the bot's
  identity, so a failure there leaves them set and \<open>initialized\<close> false.
\<close>

definition initialize ::
  "(string \<Rightarrow> bool) \<Rightarrow> (HttpRequest \<Rightarrow> BotInfo FetchOutcome) \<Rightarrow> WebexChannel \<Rightarrow> WebexChannelConfig
     \<Rightarrow> (JsError + unit) \<times> WebexChannel" where
  "initialize validUrl fetchBot ch config =
     (case validateConfig validUrl config of
        Inl e \<Rightarrow> (Inl e, ch)
      | Inr _ \<Rightarrow>
          let merged = mergeDefaults config;
              ch1 = ch\<lparr>ch_config := Some merged, ch_sender := Some (newWebexSender merged),
                       ch_webhookHandler := Some (newWebexWebhookHandler merged)\<rparr>
          in (case handler_initialize (newWebexWebhookHandler merged) fetchBot of
                Inl e \<Rightarrow> (Inl e, ch1)
              | Inr h \<Rightarrow> (Inr (), ch1\<lparr>ch_webhookHandler := Some h, ch_initialized := True\<rparr>)))"

definition ensureInitialized :: "WebexChannel \<Rightarrow> JsError + unit" where
  "ensureInitialized ch =
     (if \<not> ch_initialized ch \<or> ch_config ch = None \<or> ch_sender ch = None
         \<or> ch_webhookHandler ch = None
      then Inl (Error ''Webex channel is not initialized. Call initialize() first.'')
      else Inr ())"

definition channel_send ::
  "WebexChannel \<Rightarrow> (string \<Rightarrow> JsError + string) \<Rightarrow> Fetch \<Rightarrow> (nat \<Rightarrow> real)
     \<Rightarrow> OpenClawOutboundMessage \<Rightarrow> (JsError + WebexMessage option) \<times> Trace" where
  "channel_send ch decodeBase64 fetch random message =
     (case ensureInitialized ch of
        Inl e \<Rightarrow> (Inl e, noTrace)
      | Inr _ \<Rightarrow> send (the (ch_sender ch)) decodeBase64 fetch random message)"

definition notifyHandlers ::
  "(WebhookHandler \<Rightarrow> OpenClawEnvelope \<Rightarrow> JsError + unit) \<Rightarrow> WebexChannel \<Rightarrow> OpenClawEnvelope
     \<Rightarrow> (WebhookHandler \<times> (JsError + unit)) list" where
  "notifyHandlers invoke ch envelope = map (\<lambda>h. (h, invoke h envelope)) (ch_messageHandlers ch)"

text \<open>
  \<^verbatim>\<open>handleWebhook\<close> of the channel passes \<open>signature\<close> as a second argument to the
  webhook handler's \<^verbatim>\<open>handleWebhook\<close>, which declares no second parameter: the argument
  is dropped. The second component of the result lists the subscribers that were called,
  in order, each with the outcome of its call.
\<close>

definition channel_handleWebhook ::
  "WebexChannel \<Rightarrow> Fetch \<Rightarrow> (WebhookHandler \<Rightarrow> OpenClawEnvelope \<Rightarrow> JsError + unit)
     \<Rightarrow> WebexWebhookPayload \<Rightarrow> string option
     \<Rightarrow> (JsError + OpenClawEnvelope option) \<times> (WebhookHandler \<times> (JsError + unit)) list" where
  "channel_handleWebhook ch fetch invoke payload signature =
     (case ensureInitialized ch of
        Inl e \<Rightarrow> (Inl e, [])
      | Inr _ \<Rightarrow>
          (case handleWebhook (the (ch_webhookHandler ch)) fetch payload of
             Inl e \<Rightarrow> (Inl e, [])
           | Inr None \<Rightarrow> (Inr None, [])
           | Inr (Some envelope) \<Rightarrow> (Inr (Some envelope), notifyHandlers invoke ch envelope)))"

definition onMessage :: "WebexChannel \<Rightarrow> WebhookHandler \<Rightarrow> WebexChannel" where
  "onMessage ch handler = ch\<lparr>ch_messageHandlers := ch_messageHandlers ch @ [handler]\<rparr>"

definition offMessage :: "WebexChannel \<Rightarrow> WebhookHandler \<Rightarrow> WebexChannel" where
  "offMessage ch handler = ch\<lparr>ch_messageHandlers := remove1 handler (ch_messageHandlers ch)\<rparr>"

text \<open>
  \<^verbatim>\<open>registerWebhooks\<close> of the channel delegates to the webhook handler's method, whose
  calls to the provider are not modelled: \<open>registerAt\<close> is its result.
\<close>

definition channel_registerWebhooks ::
  "WebexChannel \<Rightarrow> (WebexWebhookHandler \<Rightarrow> JsError + 'w) \<Rightarrow> JsError + 'w" where
  "channel_registerWebhooks ch registerAt =
     (case ensureInitialized ch of
        Inl e \<Rightarrow> Inl e
      | Inr _ \<Rightarrow> registerAt (the (ch_webhookHandler ch)))"

definition getSender :: "WebexChannel \<Rightarrow> JsError + WebexSender" where
  "getSender ch =
     (case ensureInitialized ch of Inl e \<Rightarrow> Inl e | Inr _ \<Rightarrow> Inr (the (ch_sender ch)))"

definition getWebhookHandler :: "WebexChannel \<Rightarrow> JsError + WebexWebhookHandler" where
  "getWebhookHandler ch =
     (case ensureInitialized ch of Inl e \<Rightarrow> Inl e | Inr _ \<Rightarrow> Inr (the (ch_webhookHandler ch)))"

definition shutdown :: "WebexChannel \<Rightarrow> WebexChannel" where
  "shutdown ch =
     ch\<lparr>ch_messageHandlers := [], ch_sender := None, ch_webhookHandler := None,
        ch_config := None, ch_initialized := False\<rparr>"

section \<open>The words of the specification\<close>

text \<open>
  The specification's transient errors: an API error with one of the four retryable
  statuses, or a network-level failure, that is a failed request whose cause is a
  connection reset, a timeout or a DNS failure. Node reports these causes by the error
  codes ECONNRESET, ETIMEDOUT and ENOTFOUND.
\<close>

definition networkLevelFailure :: "JsError \<Rightarrow> bool" where
  "networkLevelFailure e =
     (case e of
        FetchError m t code \<Rightarrow>
          code = Some ''ECONNRESET'' \<or> code = Some ''ETIMEDOUT'' \<or> code = Some ''ENOTFOUND''
      | _ \<Rightarrow> False)"

definition transientError :: "JsError \<Rightarrow> bool" where
  "transientError e =
     (case e of
        WebexApiRequestError m c t d \<Rightarrow> c = 429 \<or> c = 502 \<or> c = 503 \<or> c = 504
      | _ \<Rightarrow> networkLevelFailure e)"

text \<open>
  An error reports its code when its message names one of the three codes exactly when
  the error is that network-level failure. Node's system errors do (\<open>read ECONNRESET\<close>,
  \<open>getaddrinfo ENOTFOUND host\<close>), with exceptions such as a connection reset reported as
  \<open>socket hang up\<close>. Nothing is asked of an API error, which is classified by its status.
\<close>

definition messageNamesCode :: "JsError \<Rightarrow> bool" where
  "messageNamesCode e =
     (str_includes (error_message e) ''ECONNRESET''
      \<or> str_includes (error_message e) ''ETIMEDOUT''
      \<or> str_includes (error_message e) ''ENOTFOUND'')"

definition reportsCode :: "JsError \<Rightarrow> bool" where
  "reportsCode e =
     (case e of
        WebexApiRequestError m c t d \<Rightarrow> True
      | _ \<Rightarrow> messageNamesCode e = networkLevelFailure e)"

text \<open>
  The three target classes of a provider request: exactly one of the three target fields
  is set.
\<close>

definition targetsRoom :: "CreateMessageRequest \<Rightarrow> string \<Rightarrow> bool" where
  "targetsRoom creq x =
     (req_roomId creq = Some x \<and> req_toPersonId creq = None
      \<and> req_toPersonEmail creq = None)"

definition targetsPersonId :: "CreateMessageRequest \<Rightarrow> string \<Rightarrow> bool" where
  "targetsPersonId creq x =
     (req_roomId creq = None \<and> req_toPersonId creq = Some x
      \<and> req_toPersonEmail creq = None)"

definition targetsPersonEmail :: "CreateMessageRequest \<Rightarrow> string \<Rightarrow> bool" where
  "targetsPersonEmail creq x =
     (req_roomId creq = None \<and> req_toPersonId creq = None
      \<and> req_toPersonEmail creq = Some x)"

text \<open>
  Steps 5 and 6 of the webhook processor, enrichment and normalization: what
  \<^verbatim>\<open>handleWebhook\<close> returns when a notification passes every filter.
\<close>

definition enrich ::
  "WebexWebhookHandler \<Rightarrow> Fetch \<Rightarrow> WebexWebhookPayload \<Rightarrow> JsError + OpenClawEnvelope option" where
  "enrich handler fetch payload =
     (case fetchMessage handler fetch (data_id (wh_data payload)) of
        Inl e \<Rightarrow> Inl e
      | Inr message \<Rightarrow> Inr (Some (normalizeMessage message)))"

text \<open>The error of \<^verbatim>\<open>ensureInitialized\<close>.\<close>

definition notInitializedError :: JsError where
  "notInitializedError = Error ''Webex channel is not initialized. Call initialize() first.''"

section \<open>Inputs of the test suite\<close>

text \<open>
  The configurations, messages, payloads and mocked responses of the repository's tests,
  used as the concrete inputs of the examples below.
\<close>

definition testConfig :: WebexChannelConfig where
  "testConfig =
     \<lparr>token = ''test-token'', webhookUrl = ''https://example.com/webhook'', dmPolicy = Some Allow,
      allowFrom = None, webhookSecret = None, apiBaseUrl = None, maxRetries = None,
      retryDelayMs = None\<rparr>"

definition fastConfig :: WebexChannelConfig where
  "fastConfig = testConfig\<lparr>maxRetries := Some 3, retryDelayMs := Some 10\<rparr>"

definition mockMessage :: WebexMessage where
  "mockMessage =
     \<lparr>msg_id = ''message-123'', msg_roomId = ''room-123'', msg_roomType = ''group'',
      msg_toPersonId = None, msg_toPersonEmail = None, msg_text = Some ''Hello, world!'',
      msg_markdown = None, msg_html = None, msg_files = None, msg_personId = ''person-123'',
      msg_personEmail = ''person@example.com'', msg_mentionedPeople = None,
      msg_mentionedGroups = None, msg_attachments = None,
      msg_created = ''2024-01-01T00:00:00.000Z'', msg_updated = None, msg_parentId = None\<rparr>"

definition okResponse :: "WebexMessage Response" where
  "okResponse =
     \<lparr>resp_ok = True, resp_status = 200, resp_statusText = ''OK'', resp_json = Inr mockMessage,
      resp_errorData = None\<rparr>"

definition errorResponse :: "string \<Rightarrow> nat \<Rightarrow> string \<Rightarrow> WebexMessage Response" where
  "errorResponse message status statusText =
     \<lparr>resp_ok = False, resp_status = status, resp_statusText = statusText,
      resp_json = Inr mockMessage,
      resp_errorData = Some \<lparr>err_message = Some message, err_errors = None, err_trackingId = None\<rparr>\<rparr>"

definition roomRequest :: RequestOptions where
  "roomRequest =
     \<lparr>opt_method = ''POST'', opt_path = ''/messages'',
      opt_body = Some (emptyRequest\<lparr>req_roomId := Some ''room-123'', req_text := Some ''Hello!''\<rparr>),
      opt_headers = None\<rparr>"

definition failingFetch :: "nat \<Rightarrow> WebexMessage Response \<Rightarrow> Fetch" where
  "failingFetch n response = (\<lambda>rq i. if i < n then Resolved response else Resolved okResponse)"

definition rateLimited :: "WebexMessage Response" where
  "rateLimited = errorResponse ''Rate Limited'' 429 ''Too Many Requests''"

definition badRequest :: "WebexMessage Response" where
  "badRequest = errorResponse ''Bad Request'' 400 ''Bad Request''"

definition socketHangUp :: JsError where
  "socketHangUp =
     FetchError ''request to https://webexapis.com/v1/messages failed, reason: socket hang up''
       ''system'' (Some ''ECONNRESET'')"

definition readReset :: JsError where
  "readReset =
     FetchError ''request to https://webexapis.com/v1/messages failed, reason: read ECONNRESET''
       ''system'' (Some ''ECONNRESET'')"

definition rejectingFetch :: "nat \<Rightarrow> JsError \<Rightarrow> Fetch" where
  "rejectingFetch n e = (\<lambda>rq i. if i < n then Rejected e else Resolved okResponse)"

definition textMessage :: "string \<Rightarrow> string \<Rightarrow> OpenClawOutboundMessage" where
  "textMessage to txt =
     \<lparr>out_to = to,
      out_content = \<lparr>c_text = Some txt, c_markdown = None, c_files = None, c_card = None\<rparr>,
      out_parentId = None\<rparr>"

definition okFetch :: Fetch where
  "okFetch = (\<lambda>rq i. Resolved okResponse)"

definition createPayload :: WebexWebhookPayload where
  "createPayload =
     \<lparr>wh_id = ''webhook-id'', wh_name = ''Test Webhook'',
      wh_targetUrl = ''https://example.com/webhook'', wh_resource = ''messages'',
      wh_event = ''created'', wh_filter = None, wh_orgId = ''org-123'',
      wh_createdBy = ''user-123'', wh_appId = ''app-123'', wh_ownedBy = ''creator'',
      wh_status = ''active'', wh_created = ''2024-01-01T00:00:00.000Z'',
      wh_actorId = ''actor-123'',
      wh_data =
        \<lparr>data_id = ''message-123'', data_roomId = ''room-123'', data_roomType = ''group'',
         data_personId = ''person-123'', data_personEmail = ''person@example.com'',
         data_created = ''2024-01-01T00:00:00.000Z'', data_mentionedPeople = None,
         data_mentionedGroups = None, data_files = None\<rparr>\<rparr>"

definition directPayload :: WebexWebhookPayload where
  "directPayload = createPayload\<lparr>wh_data := (wh_data createPayload)\<lparr>data_roomType := ''direct''\<rparr>\<rparr>"

definition mockBotInfo :: BotInfo where
  "mockBotInfo =
     \<lparr>bot_id = ''bot-123'', bot_displayName = ''Test Bot'', bot_emails = [''bot@example.com'']\<rparr>"

definition botFetch :: "HttpRequest \<Rightarrow> BotInfo FetchOutcome" where
  "botFetch rq =
     Resolved \<lparr>resp_ok = True, resp_status = 200, resp_statusText = ''OK'',
               resp_json = Inr mockBotInfo, resp_errorData = None\<rparr>"

definition testHandler :: "WebexChannelConfig \<Rightarrow> WebexWebhookHandler" where
  "testHandler config = (newWebexWebhookHandler config)\<lparr>handler_botId := Some ''bot-123''\<rparr>"

definition secretConfig :: WebexChannelConfig where
  "secretConfig = testConfig\<lparr>webhookSecret := Some ''test-secret''\<rparr>"

definition secretChannel :: WebexChannel where
  "secretChannel = snd (initialize (\<lambda>url. True) botFetch newWebexChannel secretConfig)"

text \<open>
  A base64 decoder in the manner of Node's \<^verbatim>\<open>Buffer.from(s, 'base64')\<close>: characters
  outside the alphabet are skipped and decoding stops at the padding. It instantiates the
  decoder parameter of \<open>buildMessageRequest\<close> in the examples; the theorems hold for
  every decoder.
\<close>

definition b64value :: "char \<Rightarrow> nat option" where
  "b64value c =
     (let n = (of_char c :: nat) in
      if 65 \<le> n \<and> n \<le> 90 then Some (n - 65)
      else if 97 \<le> n \<and> n \<le> 122 then Some (n - 71)
      else if 48 \<le> n \<and> n \<le> 57 then Some (n + 4)
      else if n = 43 \<or> n = 45 then Some 62
      else if n = 47 \<or> n = 95 then Some 63
      else None)"

fun b64bytes :: "nat list \<Rightarrow> nat list" where
  "b64bytes (a # b # c # d # rest) =
     [a * 4 + b div 16, (b mod 16) * 16 + c div 4, (c mod 4) * 64 + d] @ b64bytes rest"
| "b64bytes [a, b, c] = [a * 4 + b div 16, (b mod 16) * 16 + c div 4]"
| "b64bytes [a, b] = [a * 4 + b div 16]"
| "b64bytes _ = []"

definition base64ToString :: "string \<Rightarrow> JsError + string" where
  "base64ToString s =
     Inr (map char_of (b64bytes (List.map_filter b64value (takeWhile (\<lambda>c. c \<noteq> CHR ''='') s))))"

section \<open>Properties of send.ts\<close>

lemma str_includes_Nil [simp]: "str_includes s []"
  by (induction s) auto

lemma shouldRetry_attempt: "shouldRetry e a = shouldRetry e b"
  by (cases e) simp_all

lemma request_loop_unfold:
  "request_loop s f r o' k le tr =
     (if int k \<le> ro_maxRetries (sender_retryOptions s) then
        (case responseResult (f (httpRequestOf s o') (length (fetched tr))) of
           Inr v \<Rightarrow> (Inr v, tr\<lparr>fetched := fetched tr @ [httpRequestOf s o']\<rparr>)
         | Inl e \<Rightarrow>
             if int (k + 1) > ro_maxRetries (sender_retryOptions s) \<or> \<not> shouldRetry e (k + 1)
             then (Inl e, tr\<lparr>fetched := fetched tr @ [httpRequestOf s o']\<rparr>)
             else request_loop s f r o' (k + 1) (Some e)
                    (tr\<lparr>fetched := fetched tr @ [httpRequestOf s o'],
                        slept := slept tr @ [calculateBackoff s (k + 1) (r (length (slept tr)))]\<rparr>))
      else (Inl (throwLast le), tr))"
  by (subst request_loop.simps)
     (auto simp: executeRequest_def Let_def throwLast_def split: sum.splits)

lemma request_loop_fetched:
  "\<exists>n. fetched (snd (request_loop s f r o' k le tr)) = fetched tr @ replicate n (httpRequestOf s o')"
proof (induction s f r o' k le tr rule: request_loop.induct)
  case (1 s f r o' k le tr)
  let ?rq = "httpRequestOf s o'"
  show ?case
  proof (cases "int k \<le> ro_maxRetries (sender_retryOptions s)")
    case False
    then have "request_loop s f r o' k le tr = (Inl (throwLast le), tr)"
      by (subst request_loop.simps) simp
    then show ?thesis by (intro exI[of _ 0]) simp
  next
    case True
    show ?thesis
    proof (cases "responseResult (f ?rq (length (fetched tr)))")
      case (Inr v)
      with True have "request_loop s f r o' k le tr = (Inr v, tr\<lparr>fetched := fetched tr @ [?rq]\<rparr>)"
        by (subst request_loop_unfold) simp
      then show ?thesis by (intro exI[of _ 1]) simp
    next
      case (Inl e)
      show ?thesis
      proof (cases "int (k + 1) > ro_maxRetries (sender_retryOptions s) \<or> \<not> shouldRetry e (k + 1)")
        case stop: True
        with True Inl have "request_loop s f r o' k le tr = (Inl e, tr\<lparr>fetched := fetched tr @ [?rq]\<rparr>)"
          by (subst request_loop_unfold) simp
        then show ?thesis by (intro exI[of _ 1]) simp
      next
        case go: False
        let ?tr' = "tr\<lparr>fetched := fetched tr @ [?rq]\<rparr>"
        let ?tr'' = "?tr'\<lparr>slept := slept ?tr' @ [calculateBackoff s (k + 1) (r (length (slept ?tr')))]\<rparr>"
        have ex: "executeRequest s f o' tr = (Inl e, ?tr')"
          using Inl by (simp add: executeRequest_def Let_def)
        have "\<exists>n. fetched (snd (request_loop s f r o' (k + 1) (Some e) ?tr'')) = fetched ?tr'' @ replicate n ?rq"
          using "1.IH"[OF True ex[symmetric] refl] go by simp
        then obtain n where n: "fetched (snd (request_loop s f r o' (k + 1) (Some e) ?tr'')) = fetched ?tr'' @ replicate n ?rq" ..
        have "request_loop s f r o' k le tr = request_loop s f r o' (k + 1) (Some e) ?tr''"
          using True Inl go by (subst request_loop_unfold) simp
        with n show ?thesis by (intro exI[of _ "Suc n"]) (simp add: replicate_app_Cons_same)
      qed
    qed
  qed
qed

text \<open>d transient failures from attempt k on, all within the budget, lead to attempt k + d.\<close>

lemma request_loop_retries:
  assumes "\<forall>i<d. \<exists>e. responseResult (f (httpRequestOf s o') (k + i)) = Inl e \<and> shouldRetry e (k + i + 1)"
    and "int (k + d) \<le> ro_maxRetries (sender_retryOptions s)"
    and "length (fetched tr) = k"
  shows "\<exists>le' sl. length sl = d \<and>
           request_loop s f r o' k le tr =
           request_loop s f r o' (k + d) le'
             (tr\<lparr>fetched := fetched tr @ replicate d (httpRequestOf s o'), slept := slept tr @ sl\<rparr>)"
  using assms
proof (induction d arbitrary: k le tr)
  case 0
  show ?case by (intro exI[of _ le] exI[of _ "[]"]) simp
next
  case (Suc d)
  let ?rq = "httpRequestOf s o'"
  from Suc.prems(1) obtain e where e: "responseResult (f ?rq k) = Inl e" "shouldRetry e (k + 1)"
    by (metis add.right_neutral zero_less_Suc)
  let ?tr' = "tr\<lparr>fetched := fetched tr @ [?rq],
                  slept := slept tr @ [calculateBackoff s (k + 1) (r (length (slept tr)))]\<rparr>"
  have step: "request_loop s f r o' k le tr = request_loop s f r o' (k + 1) (Some e) ?tr'"
    using e Suc.prems(2,3) by (subst request_loop_unfold) simp
  have "\<forall>i<d. \<exists>e. responseResult (f ?rq (k + 1 + i)) = Inl e \<and> shouldRetry e (k + 1 + i + 1)"
  proof (intro allI impI)
    fix i assume "i < d"
    then have "Suc i < Suc d" by simp
    with Suc.prems(1) have "\<exists>e. responseResult (f ?rq (k + Suc i)) = Inl e \<and> shouldRetry e (k + Suc i + 1)"
      by blast
    then show "\<exists>e. responseResult (f ?rq (k + 1 + i)) = Inl e \<and> shouldRetry e (k + 1 + i + 1)"
      by simp
  qed
  moreover have "int (k + 1 + d) \<le> ro_maxRetries (sender_retryOptions s)"
    using Suc.prems(2) by simp
  moreover have "length (fetched ?tr') = k + 1"
    using Suc.prems(3) by simp
  ultimately obtain le' sl where sl: "length sl = d"
    "request_loop s f r o' (k + 1) (Some e) ?tr' =
       request_loop s f r o' (k + 1 + d) le'
         (?tr'\<lparr>fetched := fetched ?tr' @ replicate d ?rq, slept := slept ?tr' @ sl\<rparr>)"
    using Suc.IH[of "k + 1" ?tr' "Some e"] by blast
  have eq: "request_loop s f r o' k le tr =
      request_loop s f r o' (k + 1 + d) le'
        (?tr'\<lparr>fetched := fetched ?tr' @ replicate d ?rq, slept := slept ?tr' @ sl\<rparr>)"
    by (simp only: step sl(2))
  have tr_eq: "?tr'\<lparr>fetched := fetched ?tr' @ replicate d ?rq, slept := slept ?tr' @ sl\<rparr> =
      tr\<lparr>fetched := fetched tr @ replicate (Suc d) ?rq,
         slept := slept tr @ (calculateBackoff s (k + 1) (r (length (slept tr))) # sl)\<rparr>"
    by (simp add: replicate_app_Cons_same)
  have k_eq: "k + 1 + d = k + Suc d" by simp
  from eq have "request_loop s f r o' k le tr =
      request_loop s f r o' (k + Suc d) le'
        (tr\<lparr>fetched := fetched tr @ replicate (Suc d) ?rq,
            slept := slept tr @ (calculateBackoff s (k + 1) (r (length (slept tr))) # sl)\<rparr>)"
    unfolding tr_eq k_eq .
  moreover have "length (calculateBackoff s (k + 1) (r (length (slept tr))) # sl) = Suc d"
    using sl(1) by simp
  ultimately show ?case by blast
qed

lemma request_loop_calls_ge:
  assumes "int k \<le> ro_maxRetries (sender_retryOptions s)"
  shows "length (fetched (snd (request_loop s f r o' k le tr))) \<ge> length (fetched tr) + 1"
proof -
  let ?rq = "httpRequestOf s o'"
  show ?thesis
  proof (cases "responseResult (f ?rq (length (fetched tr)))")
    case (Inr v)
    with assms show ?thesis by (subst request_loop_unfold) simp
  next
    case (Inl e)
    show ?thesis
    proof (cases "int (k + 1) > ro_maxRetries (sender_retryOptions s) \<or> \<not> shouldRetry e (k + 1)")
      case True
      with assms Inl show ?thesis by (subst request_loop_unfold) simp
    next
      case False
      let ?tr' = "tr\<lparr>fetched := fetched tr @ [?rq],
                      slept := slept tr @ [calculateBackoff s (k + 1) (r (length (slept tr)))]\<rparr>"
      obtain n where "fetched (snd (request_loop s f r o' (k + 1) (Some e) ?tr')) = fetched ?tr' @ replicate n ?rq"
        using request_loop_fetched by blast
      moreover have "request_loop s f r o' k le tr = request_loop s f r o' (k + 1) (Some e) ?tr'"
        using assms Inl False by (subst request_loop_unfold) simp
      ultimately show ?thesis by simp
    qed
  qed
qed

lemma shouldRetry_reportsCode: "reportsCode e \<Longrightarrow> shouldRetry e a = transientError e"
  by (cases e)
     (auto simp: transientError_def reportsCode_def messageNamesCode_def networkLevelFailure_def
        RETRY_STATUS_CODES_def)

text \<open>
  After \<open>k\<close> transient failures within the budget, \<^verbatim>\<open>request\<close> stands at the head of
  its loop with \<open>attempt = k\<close>, having called the executor \<open>k\<close> times.
\<close>

lemma request_reaches:
  assumes "\<forall>i<k. \<exists>e. responseResult (f (httpRequestOf s o') i) = Inl e \<and> shouldRetry e (i + 1)"
    and "int k \<le> ro_maxRetries (sender_retryOptions s)"
  shows "\<exists>le' sl. length sl = k \<and>
           request s f r o' =
           request_loop s f r o' k le'
             (noTrace\<lparr>fetched := replicate k (httpRequestOf s o'), slept := sl\<rparr>)"
proof -
  let ?rq = "httpRequestOf s o'"
  have "\<forall>i<k. \<exists>e. responseResult (f ?rq (0 + i)) = Inl e \<and> shouldRetry e (0 + i + 1)"
    using assms(1) by simp
  moreover have "int (0 + k) \<le> ro_maxRetries (sender_retryOptions s)"
    using assms(2) by simp
  moreover have "length (fetched noTrace) = 0"
    by (simp add: noTrace_def)
  ultimately obtain le' sl where sl: "length sl = k"
    "request_loop s f r o' 0 None noTrace =
       request_loop s f r o' (0 + k) le'
         (noTrace\<lparr>fetched := fetched noTrace @ replicate k ?rq, slept := slept noTrace @ sl\<rparr>)"
    using request_loop_retries[of k f s o' 0 noTrace r None] by blast
  have "request s f r o' =
      request_loop s f r o' k le' (noTrace\<lparr>fetched := replicate k ?rq, slept := sl\<rparr>)"
    unfolding request_def sl(2) by (simp add: noTrace_def)
  with sl(1) show ?thesis by blast
qed

lemma request_success:
  assumes "\<forall>i<N. \<exists>e. responseResult (f (httpRequestOf s o') i) = Inl e \<and> shouldRetry e (i + 1)"
    and "int N \<le> ro_maxRetries (sender_retryOptions s)"
    and "responseResult (f (httpRequestOf s o') N) = Inr v"
  shows "fst (request s f r o') = Inr v"
    and "fetched (snd (request s f r o')) = replicate (N + 1) (httpRequestOf s o')"
proof -
  let ?rq = "httpRequestOf s o'"
  obtain le' sl where req: "request s f r o' =
      request_loop s f r o' N le' (noTrace\<lparr>fetched := replicate N ?rq, slept := sl\<rparr>)"
    using request_reaches[where f = f and s = s and o' = o' and r = r, OF assms(1,2)] by blast
  have "request s f r o' = (Inr v, noTrace\<lparr>fetched := replicate N ?rq @ [?rq], slept := sl\<rparr>)"
    unfolding req using assms(2,3) by (subst request_loop_unfold) simp
  then show "fst (request s f r o') = Inr v"
    and "fetched (snd (request s f r o')) = replicate (N + 1) ?rq"
    by (simp_all add: replicate_append_same)
qed

lemma request_stops:
  assumes "\<forall>i<k. \<exists>e'. responseResult (f (httpRequestOf s o') i) = Inl e' \<and> shouldRetry e' (i + 1)"
    and "int k \<le> ro_maxRetries (sender_retryOptions s)"
    and "responseResult (f (httpRequestOf s o') k) = Inl e"
    and "int (k + 1) > ro_maxRetries (sender_retryOptions s) \<or> \<not> shouldRetry e (k + 1)"
  shows "fst (request s f r o') = Inl e"
    and "fetched (snd (request s f r o')) = replicate (k + 1) (httpRequestOf s o')"
proof -
  let ?rq = "httpRequestOf s o'"
  obtain le' sl where req: "request s f r o' =
      request_loop s f r o' k le' (noTrace\<lparr>fetched := replicate k ?rq, slept := sl\<rparr>)"
    using request_reaches[where f = f and s = s and o' = o' and r = r, OF assms(1,2)] by blast
  have "request s f r o' = (Inl e, noTrace\<lparr>fetched := replicate k ?rq @ [?rq], slept := sl\<rparr>)"
    unfolding req using assms(2,3,4) by (subst request_loop_unfold) auto
  then show "fst (request s f r o') = Inl e"
    and "fetched (snd (request s f r o')) = replicate (k + 1) ?rq"
    by (simp_all add: replicate_append_same)
qed

lemma request_retries:
  assumes "\<forall>i<k. \<exists>e'. responseResult (f (httpRequestOf s o') i) = Inl e' \<and> shouldRetry e' (i + 1)"
    and "responseResult (f (httpRequestOf s o') k) = Inl e"
    and "shouldRetry e (k + 1)"
    and "int (k + 1) \<le> ro_maxRetries (sender_retryOptions s)"
  shows "k + 1 < length (fetched (snd (request s f r o')))"
proof -
  let ?rq = "httpRequestOf s o'"
  have "\<forall>i<k + 1. \<exists>e'. responseResult (f ?rq i) = Inl e' \<and> shouldRetry e' (i + 1)"
    using assms(1,2,3) by (auto simp: less_Suc_eq)
  then obtain le' sl where req: "request s f r o' =
      request_loop s f r o' (k + 1) le' (noTrace\<lparr>fetched := replicate (k + 1) ?rq, slept := sl\<rparr>)"
    using request_reaches[where f = f and s = s and o' = o' and r = r and k = "k + 1", OF _ assms(4)] by blast
  have "length (fetched (noTrace\<lparr>fetched := replicate (k + 1) ?rq, slept := sl\<rparr>)) + 1
      \<le> length (fetched (snd (request s f r o')))"
    unfolding req by (rule request_loop_calls_ge[OF assms(4)])
  then show ?thesis by simp
qed

lemma responseResult_rateLimited:
  "responseResult (Resolved rateLimited) = Inl (WebexApiRequestError ''Rate Limited'' 429 None None)"
  by (simp add: responseResult_def rateLimited_def errorResponse_def parseErrorResponse_def truthy_def)

lemma responseResult_badRequest:
  "responseResult (Resolved badRequest) = Inl (WebexApiRequestError ''Bad Request'' 400 None None)"
  by (simp add: responseResult_def badRequest_def errorResponse_def parseErrorResponse_def truthy_def)

lemma responseResult_ok: "responseResult (Resolved okResponse) = Inr (Some mockMessage)"
  by (simp add: responseResult_def okResponse_def)

lemma fast_maxRetries: "ro_maxRetries (sender_retryOptions (newWebexSender fastConfig)) = 3"
  by (simp add: newWebexSender_def fastConfig_def testConfig_def)




lemma socketHangUp_terminal: "\<not> shouldRetry socketHangUp a"
  unfolding socketHangUp_def by simp

lemma readReset_retried: "shouldRetry readReset a"
  unfolding readReset_def by simp

text \<open>
  Claim C5, as stated, fails on the code, in two ways. The budget check stands before
  the retry predicate: in the run of the test suite's "should fail after max retries"
  (maxRetries 3, every response a 429), the fourth attempt fails with status 429 and no
  fifth call is made. And the retry predicate reads the message of an error, not its
  code: a connection reset that node-fetch reports as \<open>socket hang up\<close> (code ECONNRESET)
  on the first attempt, with the whole budget left, is thrown after that one call.
\<close>

theorem retry_iff_transient_counterexample:
  "responseResult (failingFetch 7 rateLimited
       (httpRequestOf (newWebexSender fastConfig) roomRequest) 3)
     = Inl (WebexApiRequestError ''Rate Limited'' 429 None None)
   \<and> transientError (WebexApiRequestError ''Rate Limited'' 429 None None)
   \<and> length (fetched (snd (request (newWebexSender fastConfig) (failingFetch 7 rateLimited)
        (\<lambda>k. 0) roomRequest))) = 4
   \<and> ro_maxRetries (sender_retryOptions (newWebexSender fastConfig)) = 3
   \<and> transientError socketHangUp
   \<and> fst (request (newWebexSender fastConfig) (rejectingFetch 1 socketHangUp) (\<lambda>k. 0)
        roomRequest) = Inl socketHangUp
   \<and> length (fetched (snd (request (newWebexSender fastConfig) (rejectingFetch 1 socketHangUp)
        (\<lambda>k. 0) roomRequest))) = 1"
proof -
  let ?s = "newWebexSender fastConfig"
  let ?rq = "httpRequestOf ?s roomRequest"
  have e: "responseResult (failingFetch 7 rateLimited ?rq 3)
      = Inl (WebexApiRequestError ''Rate Limited'' 429 None None)"
    by (simp add: failingFetch_def responseResult_rateLimited)
  have earlier: "\<forall>i<3. \<exists>e'. responseResult (failingFetch 7 rateLimited ?rq i) = Inl e'
      \<and> shouldRetry e' (i + 1)"
    by (simp add: failingFetch_def responseResult_rateLimited RETRY_STATUS_CODES_def)
  have made: "int 3 \<le> ro_maxRetries (sender_retryOptions ?s)"
    by (simp add: fast_maxRetries)
  have out: "int (3 + 1) > ro_maxRetries (sender_retryOptions ?s)
      \<or> \<not> shouldRetry (WebexApiRequestError ''Rate Limited'' 429 None None) (3 + 1)"
    by (simp add: fast_maxRetries)
  have "fetched (snd (request ?s (failingFetch 7 rateLimited) (\<lambda>k. 0) roomRequest))
      = replicate (3 + 1) ?rq"
    by (rule request_stops(2)[where f = "failingFetch 7 rateLimited" and s = ?s
          and o' = roomRequest and r = "\<lambda>k. 0", OF earlier made e out])
  then have 1: "length (fetched (snd (request ?s (failingFetch 7 rateLimited) (\<lambda>k. 0)
      roomRequest))) = 4"
    by simp
  have 2: "transientError (WebexApiRequestError ''Rate Limited'' 429 None None)"
    by (simp add: transientError_def)
  have 3: "transientError socketHangUp"
    by (simp add: transientError_def networkLevelFailure_def socketHangUp_def)
  have none: "\<forall>i<(0::nat). \<exists>e'. responseResult (rejectingFetch 1 socketHangUp ?rq i) = Inl e'
      \<and> shouldRetry e' (i + 1)"
    by simp
  have made0: "int 0 \<le> ro_maxRetries (sender_retryOptions ?s)"
    by (simp add: fast_maxRetries)
  have hang: "responseResult (rejectingFetch 1 socketHangUp ?rq 0) = Inl socketHangUp"
    by (simp add: rejectingFetch_def responseResult_def)
  have out0: "int (0 + 1) > ro_maxRetries (sender_retryOptions ?s)
      \<or> \<not> shouldRetry socketHangUp (0 + 1)"
    by (simp add: socketHangUp_terminal)
  note stop = request_stops[where f = "rejectingFetch 1 socketHangUp" and s = ?s
      and o' = roomRequest and r = "\<lambda>k. 0" and k = 0, OF none made0 hang out0]
  have 4: "fst (request ?s (rejectingFetch 1 socketHangUp) (\<lambda>k. 0) roomRequest) = Inl socketHangUp"
    by (rule stop(1))
  have 5: "length (fetched (snd (request ?s (rejectingFetch 1 socketHangUp) (\<lambda>k. 0)
      roomRequest))) = 1"
    using stop(2) by simp
  from e 2 1 fast_maxRetries 3 4 5 show ?thesis by (intro conjI)
qed

text \<open>
  Claim C5, amended. Let attempt \<open>k + 1\<close> of a request fail with the error \<open>e\<close>, the \<open>k\<close>
  attempts before it having been retried. If \<open>e\<close> reports its code (its message names
  ECONNRESET, ETIMEDOUT or ENOTFOUND exactly when it is that network-level failure; an API
  error always does) then: while the budget is not exhausted (\<open>k + 1 \<le> maxRetries\<close>), the
  executor is called again exactly when \<open>e\<close> is an API error with status 429, 502, 503 or
  504 or a network-level failure; and any other such error is terminal: no further call is
  made (\<open>k + 1\<close> calls in all, one when the first attempt fails so) and \<open>e\<close> is thrown. On
  the attempt that exhausts the budget (\<open>k + 1 > maxRetries\<close>), \<open>e\<close> is thrown without a
  further call, whatever its class. Of a network-level failure that does not report its
  code nothing is said.
\<close>

theorem retry_iff_transient_within_budget:
  assumes "ro_maxRetries (sender_retryOptions s) = M"
    and "\<forall>i<k. \<exists>e'. responseResult (f (httpRequestOf s o') i) = Inl e' \<and> shouldRetry e' (i + 1)"
    and "int k \<le> M"
    and "responseResult (f (httpRequestOf s o') k) = Inl e"
  shows "(reportsCode e \<and> int (k + 1) \<le> M \<longrightarrow>
            (k + 1 < length (fetched (snd (request s f r o')))) = transientError e)
       \<and> (reportsCode e \<and> \<not> transientError e \<longrightarrow>
            fst (request s f r o') = Inl e
            \<and> fetched (snd (request s f r o')) = replicate (k + 1) (httpRequestOf s o'))
       \<and> (int (k + 1) > M \<longrightarrow>
            fst (request s f r o') = Inl e
            \<and> fetched (snd (request s f r o')) = replicate (k + 1) (httpRequestOf s o'))"
proof (intro conjI impI)
  let ?rq = "httpRequestOf s o'"
  have made: "int k \<le> ro_maxRetries (sender_retryOptions s)"
    using assms(1,3) by simp
  show "(k + 1 < length (fetched (snd (request s f r o')))) = transientError e"
    if rb: "reportsCode e \<and> int (k + 1) \<le> M"
  proof (cases "transientError e")
    case True
    then have "shouldRetry e (k + 1)"
      using rb by (simp add: shouldRetry_reportsCode)
    moreover have "int (k + 1) \<le> ro_maxRetries (sender_retryOptions s)"
      using rb assms(1) by simp
    ultimately have "k + 1 < length (fetched (snd (request s f r o')))"
      using request_retries[where f = f and s = s and o' = o' and r = r, OF assms(2,4)] by blast
    with True show ?thesis by simp
  next
    case False
    then have "int (k + 1) > ro_maxRetries (sender_retryOptions s) \<or> \<not> shouldRetry e (k + 1)"
      using rb by (simp add: shouldRetry_reportsCode)
    from request_stops(2)[where f = f and s = s and o' = o' and r = r,
        OF assms(2) made assms(4) this]
    have "length (fetched (snd (request s f r o'))) = k + 1" by simp
    with False show ?thesis by simp
  qed
  {
    assume nt: "reportsCode e \<and> \<not> transientError e"
    then have out: "int (k + 1) > ro_maxRetries (sender_retryOptions s)
        \<or> \<not> shouldRetry e (k + 1)"
      by (simp add: shouldRetry_reportsCode)
    show "fst (request s f r o') = Inl e"
      by (rule request_stops(1)[where f = f and s = s and o' = o' and r = r,
            OF assms(2) made assms(4) out])
    show "fetched (snd (request s f r o')) = replicate (k + 1) ?rq"
      by (rule request_stops(2)[where f = f and s = s and o' = o' and r = r,
            OF assms(2) made assms(4) out])
  }
  {
    assume "int (k + 1) > M"
    then have out: "int (k + 1) > ro_maxRetries (sender_retryOptions s)
        \<or> \<not> shouldRetry e (k + 1)"
      using assms(1) by simp
    show "fst (request s f r o') = Inl e"
      by (rule request_stops(1)[where f = f and s = s and o' = o' and r = r,
            OF assms(2) made assms(4) out])
    show "fetched (snd (request s f r o')) = replicate (k + 1) ?rq"
      by (rule request_stops(2)[where f = f and s = s and o' = o' and r = r,
            OF assms(2) made assms(4) out])
  }
qed

theorem retry_iff_transient_within_budget_witness:
  "fst (request (newWebexSender fastConfig) (failingFetch 7 badRequest) (\<lambda>k. 0) roomRequest)
     = Inl (WebexApiRequestError ''Bad Request'' 400 None None)
   \<and> length (fetched (snd (request (newWebexSender fastConfig) (failingFetch 7 badRequest)
        (\<lambda>k. 0) roomRequest))) = 1
   \<and> 1 < length (fetched (snd (request (newWebexSender fastConfig) (failingFetch 7 rateLimited)
        (\<lambda>k. 0) roomRequest)))
   \<and> 1 < length (fetched (snd (request (newWebexSender fastConfig) (rejectingFetch 1 readReset)
        (\<lambda>k. 0) roomRequest)))
   \<and> fst (request (newWebexSender fastConfig) (failingFetch 7 rateLimited) (\<lambda>k. 0) roomRequest)
     = Inl (WebexApiRequestError ''Rate Limited'' 429 None None)
   \<and> length (fetched (snd (request (newWebexSender fastConfig) (failingFetch 7 rateLimited)
        (\<lambda>k. 0) roomRequest))) = 4"
proof -
  let ?s = "newWebexSender fastConfig"
  let ?rq = "httpRequestOf ?s roomRequest"
  have none: "\<forall>i<(0::nat). \<exists>e'. responseResult (f ?rq i) = Inl e' \<and> shouldRetry e' (i + 1)" for f
    by simp
  have made: "int 0 \<le> 3" by simp
  have bad: "responseResult (failingFetch 7 badRequest ?rq 0)
      = Inl (WebexApiRequestError ''Bad Request'' 400 None None)"
    by (simp add: failingFetch_def responseResult_badRequest)
  have rate: "responseResult (failingFetch 7 rateLimited ?rq 0)
      = Inl (WebexApiRequestError ''Rate Limited'' 429 None None)"
    by (simp add: failingFetch_def responseResult_rateLimited)
  have reset: "responseResult (rejectingFetch 1 readReset ?rq 0) = Inl readReset"
    by (simp add: rejectingFetch_def responseResult_def)
  note t400 = retry_iff_transient_within_budget[where r = "\<lambda>k. 0" and s = ?s and o' = roomRequest
      and f = "failingFetch 7 badRequest" and k = 0,
      OF fast_maxRetries none[of "failingFetch 7 badRequest"] made bad]
  note t429 = retry_iff_transient_within_budget[where r = "\<lambda>k. 0" and s = ?s and o' = roomRequest
      and f = "failingFetch 7 rateLimited" and k = 0,
      OF fast_maxRetries none[of "failingFetch 7 rateLimited"] made rate]
  note treset = retry_iff_transient_within_budget[where r = "\<lambda>k. 0" and s = ?s
      and o' = roomRequest and f = "rejectingFetch 1 readReset" and k = 0,
      OF fast_maxRetries none[of "rejectingFetch 1 readReset"] made reset]
  have three: "\<forall>i<3. \<exists>e'. responseResult (failingFetch 7 rateLimited ?rq i) = Inl e'
      \<and> shouldRetry e' (i + 1)"
    by (simp add: failingFetch_def responseResult_rateLimited RETRY_STATUS_CODES_def)
  have made3: "int 3 \<le> 3" by simp
  have rate3: "responseResult (failingFetch 7 rateLimited ?rq 3)
      = Inl (WebexApiRequestError ''Rate Limited'' 429 None None)"
    by (simp add: failingFetch_def responseResult_rateLimited)
  note tlast = retry_iff_transient_within_budget[where r = "\<lambda>k. 0" and s = ?s and o' = roomRequest
      and f = "failingFetch 7 rateLimited" and k = 3, OF fast_maxRetries three made3 rate3]
  have c400: "reportsCode (WebexApiRequestError ''Bad Request'' 400 None None)
      \<and> \<not> transientError (WebexApiRequestError ''Bad Request'' 400 None None)"
    by (simp add: transientError_def reportsCode_def)
  have c429: "reportsCode (WebexApiRequestError ''Rate Limited'' 429 None None)
      \<and> int (0 + 1) \<le> 3"
    "transientError (WebexApiRequestError ''Rate Limited'' 429 None None)"
    by (simp_all add: transientError_def reportsCode_def)
  have creset: "reportsCode readReset \<and> int (0 + 1) \<le> 3" "transientError readReset"
    by (simp_all add: transientError_def reportsCode_def messageNamesCode_def
        networkLevelFailure_def readReset_def)
  have over: "int (3 + 1) > 3" by simp
  from t400 c400 have 1: "fst (request ?s (failingFetch 7 badRequest) (\<lambda>k. 0) roomRequest)
      = Inl (WebexApiRequestError ''Bad Request'' 400 None None)"
    and 2: "length (fetched (snd (request ?s (failingFetch 7 badRequest) (\<lambda>k. 0) roomRequest))) = 1"
    by simp_all
  from t429 c429 have 3: "1 < length (fetched (snd (request ?s (failingFetch 7 rateLimited)
      (\<lambda>k. 0) roomRequest)))"
    by simp
  from treset creset have 4: "1 < length (fetched (snd (request ?s (rejectingFetch 1 readReset)
      (\<lambda>k. 0) roomRequest)))"
    by simp
  from tlast over have 5: "fst (request ?s (failingFetch 7 rateLimited) (\<lambda>k. 0) roomRequest)
      = Inl (WebexApiRequestError ''Rate Limited'' 429 None None)"
    and 6: "length (fetched (snd (request ?s (failingFetch 7 rateLimited) (\<lambda>k. 0) roomRequest))) = 4"
    by simp_all
  from 1 2 3 4 5 6 show ?thesis by (intro conjI)
qed

text \<open>
  Claim C6. For the retry attempt \<open>n \<ge> 1\<close> and a random number in \<open>[0, 1)\<close>, the delay is
  \<open>min (baseDelay * 2 ^ (n - 1) * (1 + jitter)) 30000\<close> for some \<open>jitter\<close> in \<open>[0, 0.3)\<close>;
  it never exceeds 30000, and for a base delay that is not negative it is at least
  \<open>baseDelay * 2 ^ (n - 1)\<close>, up to the cap. The arithmetic is that of the real numbers.
\<close>

theorem calculateBackoff_bounds:
  assumes "0 \<le> rnd" "rnd < 1" "1 \<le> n"
  shows "(\<exists>jitter. 0 \<le> jitter \<and> jitter < 0.3
            \<and> calculateBackoff s n rnd
                = min (ro_retryDelayMs (sender_retryOptions s) * 2 ^ (n - 1) * (1 + jitter)) 30000)
       \<and> calculateBackoff s n rnd \<le> 30000
       \<and> (0 \<le> ro_retryDelayMs (sender_retryOptions s) \<longrightarrow>
            min (ro_retryDelayMs (sender_retryOptions s) * 2 ^ (n - 1)) 30000
              \<le> calculateBackoff s n rnd)"
proof -
  let ?b = "ro_retryDelayMs (sender_retryOptions s)"
  have r: "real n - 1 = real (n - 1)" using assms(3) by (simp add: of_nat_diff)
  have pow: "(2::real) powr (real n - 1) = 2 ^ (n - 1)"
    unfolding r by (rule powr_realpow) simp
  have eq: "calculateBackoff s n rnd = min (?b * 2 ^ (n - 1) * (1 + rnd * 0.3)) 30000"
    by (simp add: calculateBackoff_def Let_def pow algebra_simps)
  have j: "0 \<le> rnd * 0.3" "rnd * 0.3 < 0.3" using assms(1,2) by simp_all
  have lower: "min (?b * 2 ^ (n - 1)) 30000 \<le> calculateBackoff s n rnd" if "0 \<le> ?b"
  proof -
    have "0 \<le> ?b * 2 ^ (n - 1)" using that by simp
    then have "?b * 2 ^ (n - 1) * 1 \<le> ?b * 2 ^ (n - 1) * (1 + rnd * 0.3)"
      using j(1) by (intro mult_left_mono) simp_all
    then show ?thesis unfolding eq by (simp add: min_le_iff_disj)
  qed
  show ?thesis
  proof (intro conjI impI)
    show "\<exists>jitter. 0 \<le> jitter \<and> jitter < 0.3
            \<and> calculateBackoff s n rnd = min (?b * 2 ^ (n - 1) * (1 + jitter)) 30000"
      using eq j by blast
    show "calculateBackoff s n rnd \<le> 30000" unfolding eq by simp
    show "min (?b * 2 ^ (n - 1)) 30000 \<le> calculateBackoff s n rnd" if "0 \<le> ?b"
      using lower[OF that] .
  qed
qed

lemma b_default: "ro_retryDelayMs (sender_retryOptions (newWebexSender testConfig)) = 1000"
  by (simp add: newWebexSender_def testConfig_def DEFAULT_RETRY_DELAY_MS_def)

lemma calculateBackoff_example: "calculateBackoff (newWebexSender testConfig) 3 (1 / 2) = 4600"
proof -
  have p3: "(2::real) powr (real 3 - 1) = 4" by simp
  show ?thesis
    unfolding calculateBackoff_def Let_def b_default p3 by simp
qed

theorem calculateBackoff_bounds_witness:
  "calculateBackoff (newWebexSender testConfig) 3 (1 / 2) = 4600
   \<and> calculateBackoff (newWebexSender testConfig) 3 (1 / 2) \<le> 30000
   \<and> min (1000 * 2 ^ (3 - 1)) 30000 \<le> calculateBackoff (newWebexSender testConfig) 3 (1 / 2)"
proof -
  have h: "(0::real) \<le> 1 / 2" "(1 / 2 :: real) < 1" "(1::nat) \<le> 3" by simp_all
  note th = calculateBackoff_bounds[OF h, of "newWebexSender testConfig"]
  from th have up: "calculateBackoff (newWebexSender testConfig) 3 (1 / 2) \<le> 30000"
    by (rule conjunct1[OF conjunct2])
  from th have "0 \<le> ro_retryDelayMs (sender_retryOptions (newWebexSender testConfig)) \<longrightarrow>
            min (ro_retryDelayMs (sender_retryOptions (newWebexSender testConfig)) * 2 ^ (3 - 1)) 30000
              \<le> calculateBackoff (newWebexSender testConfig) 3 (1 / 2)"
    by (rule conjunct2[OF conjunct2])
  then have lo: "min (1000 * 2 ^ (3 - 1)) 30000 \<le> calculateBackoff (newWebexSender testConfig) 3 (1 / 2)"
    unfolding b_default by simp
  from calculateBackoff_example up lo show ?thesis by (intro conjI)
qed

section \<open>Properties of the request built by send\<close>

lemma buildMessageRequest_email:
  "str_includes (out_to m) ''@'' \<Longrightarrow> targetsPersonEmail (buildMessageRequest dec m) (out_to m)"
  by (simp add: buildMessageRequest_def emptyRequest_def targetsPersonEmail_def Let_def
      split: option.split list.split)

lemma buildMessageRequest_no_email:
  "\<not> str_includes (out_to m) ''@'' \<Longrightarrow> req_toPersonEmail (buildMessageRequest dec m) = None"
  by (simp add: buildMessageRequest_def emptyRequest_def Let_def
      split: option.split list.split sum.split)

lemma buildMessageRequest_plain:
  "\<not> str_includes (out_to m) ''@'' \<Longrightarrow> \<not> startsWith (out_to m) ''Y2lzY29zcGFyazovL3''
     \<Longrightarrow> targetsRoom (buildMessageRequest dec m) (out_to m)"
  by (simp add: buildMessageRequest_def emptyRequest_def targetsRoom_def Let_def
      split: option.split list.split)

lemma buildMessageRequest_undecodable:
  "\<not> str_includes (out_to m) ''@'' \<Longrightarrow> startsWith (out_to m) ''Y2lzY29zcGFyazovL3''
     \<Longrightarrow> dec (out_to m) = Inl e \<Longrightarrow> targetsRoom (buildMessageRequest dec m) (out_to m)"
  by (simp add: buildMessageRequest_def emptyRequest_def targetsRoom_def Let_def
      split: option.split list.split)

lemma buildMessageRequest_decoded:
  "\<not> str_includes (out_to m) ''@'' \<Longrightarrow> startsWith (out_to m) ''Y2lzY29zcGFyazovL3''
     \<Longrightarrow> dec (out_to m) = Inr d \<Longrightarrow>
     (if str_includes d ''/ROOM/'' then targetsRoom (buildMessageRequest dec m) (out_to m)
      else if str_includes d ''/PEOPLE/'' then targetsPersonId (buildMessageRequest dec m) (out_to m)
      else targetsRoom (buildMessageRequest dec m) (out_to m))"
  by (simp add: buildMessageRequest_def emptyRequest_def targetsRoom_def targetsPersonId_def Let_def
      split: option.split list.split)

text \<open>
  Claim C7. The request built from an outbound message targets person-by-email exactly
  when \<open>to\<close> contains \<open>@\<close>. Otherwise, when \<open>to\<close> starts with the opaque-identifier prefix:
  a decoded value containing \<open>/ROOM/\<close> gives a room target; one containing \<open>/PEOPLE/\<close>
  (and not \<open>/ROOM/\<close>, which is tested first) gives a person-by-id target; a decode
  failure or a value with neither gives a room target. Every other \<open>to\<close> is the room
  identifier, verbatim. In each case the other two target fields stay unset.
\<close>

theorem buildMessageRequest_target:
  "(str_includes (out_to m) ''@'' \<longrightarrow>
      targetsPersonEmail (buildMessageRequest dec m) (out_to m))
   \<and> (\<not> str_includes (out_to m) ''@'' \<longrightarrow>
      req_toPersonEmail (buildMessageRequest dec m) = None
      \<and> (startsWith (out_to m) ''Y2lzY29zcGFyazovL3'' \<longrightarrow>
          (\<forall>e. dec (out_to m) = Inl e \<longrightarrow> targetsRoom (buildMessageRequest dec m) (out_to m))
          \<and> (\<forall>d. dec (out_to m) = Inr d \<longrightarrow>
               (str_includes d ''/ROOM/'' \<longrightarrow>
                  targetsRoom (buildMessageRequest dec m) (out_to m))
               \<and> (\<not> str_includes d ''/ROOM/'' \<and> str_includes d ''/PEOPLE/'' \<longrightarrow>
                  targetsPersonId (buildMessageRequest dec m) (out_to m))
               \<and> (\<not> str_includes d ''/ROOM/'' \<and> \<not> str_includes d ''/PEOPLE/'' \<longrightarrow>
                  targetsRoom (buildMessageRequest dec m) (out_to m))))
      \<and> (\<not> startsWith (out_to m) ''Y2lzY29zcGFyazovL3'' \<longrightarrow>
          targetsRoom (buildMessageRequest dec m) (out_to m)))"
proof (intro conjI impI allI)
  show "targetsPersonEmail (buildMessageRequest dec m) (out_to m)"
    if "str_includes (out_to m) ''@''"
    using that by (rule buildMessageRequest_email)
  show "req_toPersonEmail (buildMessageRequest dec m) = None"
    if "\<not> str_includes (out_to m) ''@''"
    using that by (rule buildMessageRequest_no_email)
  show "targetsRoom (buildMessageRequest dec m) (out_to m)"
    if "\<not> str_includes (out_to m) ''@''" "startsWith (out_to m) ''Y2lzY29zcGFyazovL3''"
      "dec (out_to m) = Inl e" for e
    using that by (rule buildMessageRequest_undecodable[where dec = dec])
  show "targetsRoom (buildMessageRequest dec m) (out_to m)"
    if "\<not> str_includes (out_to m) ''@''" "startsWith (out_to m) ''Y2lzY29zcGFyazovL3''"
      "dec (out_to m) = Inr d" "str_includes d ''/ROOM/''" for d
    using buildMessageRequest_decoded[where dec = dec, OF that(1,2,3)] that(4) by simp
  show "targetsPersonId (buildMessageRequest dec m) (out_to m)"
    if "\<not> str_includes (out_to m) ''@''" "startsWith (out_to m) ''Y2lzY29zcGFyazovL3''"
      "dec (out_to m) = Inr d" "\<not> str_includes d ''/ROOM/'' \<and> str_includes d ''/PEOPLE/''" for d
    using buildMessageRequest_decoded[where dec = dec, OF that(1,2,3)] that(4) by simp
  show "targetsRoom (buildMessageRequest dec m) (out_to m)"
    if "\<not> str_includes (out_to m) ''@''" "startsWith (out_to m) ''Y2lzY29zcGFyazovL3''"
      "dec (out_to m) = Inr d" "\<not> str_includes d ''/ROOM/'' \<and> \<not> str_includes d ''/PEOPLE/''" for d
    using buildMessageRequest_decoded[where dec = dec, OF that(1,2,3)] that(4) by simp
  show "targetsRoom (buildMessageRequest dec m) (out_to m)"
    if "\<not> str_includes (out_to m) ''@''" "\<not> startsWith (out_to m) ''Y2lzY29zcGFyazovL3''"
    using that by (rule buildMessageRequest_plain)
qed

lemma decode_person:
  "base64ToString ''Y2lzY29zcGFyazovL3VzL1BFT1BMRS8xMjM0'' = Inr ''ciscospark://us/PEOPLE/1234''"
  by code_simp

lemma decode_room:
  "base64ToString ''Y2lzY29zcGFyazovL3VzL1JPT00vYWJj'' = Inr ''ciscospark://us/ROOM/abc''"
  by code_simp

theorem buildMessageRequest_target_witness:
  "targetsPersonEmail (buildMessageRequest base64ToString (textMessage ''person@example.com'' ''Hello!''))
     ''person@example.com''
   \<and> targetsPersonId
       (buildMessageRequest base64ToString (textMessage ''Y2lzY29zcGFyazovL3VzL1BFT1BMRS8xMjM0'' ''Hello!''))
       ''Y2lzY29zcGFyazovL3VzL1BFT1BMRS8xMjM0''
   \<and> targetsRoom
       (buildMessageRequest base64ToString (textMessage ''Y2lzY29zcGFyazovL3VzL1JPT00vYWJj'' ''Hello!''))
       ''Y2lzY29zcGFyazovL3VzL1JPT00vYWJj''
   \<and> targetsRoom (buildMessageRequest base64ToString (textMessage ''room-123'' ''Hello!''))
       ''room-123''"
proof -
  have to: "out_to (textMessage x t) = x" for x t
    by (simp add: textMessage_def)
  have "str_includes ''person@example.com'' ''@''" by simp
  with buildMessageRequest_target[of "textMessage ''person@example.com'' ''Hello!''" base64ToString]
  have 1: "targetsPersonEmail
      (buildMessageRequest base64ToString (textMessage ''person@example.com'' ''Hello!''))
      ''person@example.com''"
    unfolding to by blast
  have p: "\<not> str_includes ''Y2lzY29zcGFyazovL3VzL1BFT1BMRS8xMjM0'' ''@''"
    "startsWith ''Y2lzY29zcGFyazovL3VzL1BFT1BMRS8xMjM0'' ''Y2lzY29zcGFyazovL3''"
    "\<not> str_includes ''ciscospark://us/PEOPLE/1234'' ''/ROOM/''
     \<and> str_includes ''ciscospark://us/PEOPLE/1234'' ''/PEOPLE/''"
    by (simp_all add: startsWith_def)
  with buildMessageRequest_target[of "textMessage ''Y2lzY29zcGFyazovL3VzL1BFT1BMRS8xMjM0'' ''Hello!''"
      base64ToString] decode_person
  have 2: "targetsPersonId
      (buildMessageRequest base64ToString (textMessage ''Y2lzY29zcGFyazovL3VzL1BFT1BMRS8xMjM0'' ''Hello!''))
      ''Y2lzY29zcGFyazovL3VzL1BFT1BMRS8xMjM0''"
    unfolding to by blast
  have r: "\<not> str_includes ''Y2lzY29zcGFyazovL3VzL1JPT00vYWJj'' ''@''"
    "startsWith ''Y2lzY29zcGFyazovL3VzL1JPT00vYWJj'' ''Y2lzY29zcGFyazovL3''"
    "str_includes ''ciscospark://us/ROOM/abc'' ''/ROOM/''"
    by (simp_all add: startsWith_def)
  with buildMessageRequest_target[of "textMessage ''Y2lzY29zcGFyazovL3VzL1JPT00vYWJj'' ''Hello!''"
      base64ToString] decode_room
  have 3: "targetsRoom
      (buildMessageRequest base64ToString (textMessage ''Y2lzY29zcGFyazovL3VzL1JPT00vYWJj'' ''Hello!''))
      ''Y2lzY29zcGFyazovL3VzL1JPT00vYWJj''"
    unfolding to by blast
  have "\<not> str_includes ''room-123'' ''@''" "\<not> startsWith ''room-123'' ''Y2lzY29zcGFyazovL3''"
    by (simp_all add: startsWith_def)
  with buildMessageRequest_target[of "textMessage ''room-123'' ''Hello!''" base64ToString]
  have 4: "targetsRoom (buildMessageRequest base64ToString (textMessage ''room-123'' ''Hello!''))
      ''room-123''"
    unfolding to by blast
  from 1 2 3 4 show ?thesis by (intro conjI)
qed

lemma buildMessageRequest_text: "req_text (buildMessageRequest dec m) = None"
  by (simp add: buildMessageRequest_def emptyRequest_def Let_def
      split: option.split list.split sum.split)

lemma buildMessageRequest_markdown:
  "req_markdown (buildMessageRequest dec m) =
     (if truthy (c_markdown (out_content m)) then c_markdown (out_content m)
      else if truthy (c_text (out_content m)) then c_text (out_content m)
      else None)"
  by (simp add: buildMessageRequest_def emptyRequest_def Let_def
      split: option.split list.split sum.split)

lemma request_fetched:
  "\<exists>n. fetched (snd (request s f r o')) = replicate n (httpRequestOf s o')"
  using request_loop_fetched[of s f r o' 0 None noTrace]
  by (simp add: request_def noTrace_def)

lemma createMessage_bodies:
  "set (map http_body (fetched (snd (createMessage s f r creq)))) \<subseteq> {Some creq}"
proof (cases "validateMessageRequest creq")
  case (Inl e)
  then show ?thesis by (simp add: createMessage_def noTrace_def)
next
  case (Inr u)
  let ?o = "\<lparr>opt_method = ''POST'', opt_path = ''/messages'', opt_body = Some creq,
             opt_headers = None\<rparr>"
  obtain n where "fetched (snd (request s f r ?o)) = replicate n (httpRequestOf s ?o)"
    using request_fetched by blast
  moreover have "http_body (httpRequestOf s ?o) = Some creq"
    by (simp add: httpRequestOf_def)
  ultimately show ?thesis using Inr by (auto simp: createMessage_def)
qed

text \<open>
  Claim C10. \<^verbatim>\<open>buildMessageRequest\<close> never sets the \<open>text\<close> field of the request. The
  \<open>markdown\<close> field is \<open>content.markdown\<close> when that is set (and not empty), else
  \<open>content.text\<close> when that is set, else absent; so \<open>content.markdown\<close> overwrites the
  value taken from \<open>content.text\<close>. Every HTTP request \<^verbatim>\<open>send\<close> issues carries exactly this
  request as its body.
\<close>

theorem send_text_goes_to_markdown:
  "req_text (buildMessageRequest dec m) = None
   \<and> req_markdown (buildMessageRequest dec m) =
       (if truthy (c_markdown (out_content m)) then c_markdown (out_content m)
        else if truthy (c_text (out_content m)) then c_text (out_content m)
        else None)
   \<and> set (map http_body (fetched (snd (send s dec f r m)))) \<subseteq> {Some (buildMessageRequest dec m)}"
  using buildMessageRequest_text buildMessageRequest_markdown createMessage_bodies
  by (simp add: send_def)


lemma default_maxRetries: "ro_maxRetries (sender_retryOptions (newWebexSender testConfig)) = 3"
  by (simp add: newWebexSender_def testConfig_def DEFAULT_MAX_RETRIES_def)

lemma createMessage_first_success:
  assumes "validateMessageRequest creq = Inr ()"
    and "0 \<le> ro_maxRetries (sender_retryOptions s)"
    and "responseResult (f (httpRequestOf s \<lparr>opt_method = ''POST'', opt_path = ''/messages'',
           opt_body = Some creq, opt_headers = None\<rparr>) 0) = Inr v"
  shows "fst (createMessage s f r creq) = Inr v"
    and "length (fetched (snd (createMessage s f r creq))) = 1"
proof -
  let ?o = "\<lparr>opt_method = ''POST'', opt_path = ''/messages'', opt_body = Some creq,
             opt_headers = None\<rparr>"
  have none: "\<forall>i<(0::nat). \<exists>e. responseResult (f (httpRequestOf s ?o) i) = Inl e \<and> shouldRetry e (i + 1)"
    by simp
  have b: "int 0 \<le> ro_maxRetries (sender_retryOptions s)" using assms(2) by simp
  note ok = request_success[where f = f and s = s and o' = ?o and r = r and N = 0, OF none b assms(3)]
  show "fst (createMessage s f r creq) = Inr v"
    using ok(1) assms(1) by (simp add: createMessage_def)
  show "length (fetched (snd (createMessage s f r creq))) = 1"
    using ok(2) assms(1) by (simp add: createMessage_def)
qed

lemma long_text_request:
  "buildMessageRequest dec (textMessage ''room-123'' (replicate 8000 CHR ''x''))
     = emptyRequest\<lparr>req_roomId := Some ''room-123'', req_markdown := Some (replicate 8000 CHR ''x'')\<rparr>"
  by (simp add: buildMessageRequest_def textMessage_def truthy_def startsWith_def Let_def)

text \<open>
  Claim C3 does not hold of the code. The input of the test "should throw error when text
  exceeds max size" is a plain text of 8000 bytes: \<^verbatim>\<open>send\<close> moves it to the \<open>markdown\<close>
  field, which \<^verbatim>\<open>validateMessageRequest\<close> does not measure, and the request goes to the
  network, whatever the decoder. \<^verbatim>\<open>sendToRoom\<close>, which fills the \<open>text\<close> field, rejects the
  same text without a call.
\<close>

theorem send_long_text_reaches_network:
  "byteLength (replicate 8000 CHR ''x'') = 8000
   \<and> (\<forall>dec. fst (send (newWebexSender testConfig) dec okFetch (\<lambda>k. 0)
          (textMessage ''room-123'' (replicate 8000 CHR ''x''))) = Inr (Some mockMessage)
        \<and> length (fetched (snd (send (newWebexSender testConfig) dec okFetch (\<lambda>k. 0)
          (textMessage ''room-123'' (replicate 8000 CHR ''x''))))) = 1)
   \<and> sendToRoom (newWebexSender testConfig) okFetch (\<lambda>k. 0) ''room-123''
        (replicate 8000 CHR ''x'') None
      = (Inl (Error ''Message text exceeds maximum size of 7439 bytes''), noTrace)"
proof (intro conjI allI)
  let ?s = "newWebexSender testConfig"
  let ?creq = "emptyRequest\<lparr>req_roomId := Some ''room-123'',
      req_markdown := Some (replicate 8000 CHR ''x'')\<rparr>"
  show "byteLength (replicate 8000 CHR ''x'') = 8000"
    by (simp add: byteLength_def)
  have valid: "validateMessageRequest ?creq = Inr ()"
    by (simp add: validateMessageRequest_def emptyRequest_def truthy_def)
  have budget: "0 \<le> ro_maxRetries (sender_retryOptions ?s)"
    by (simp add: default_maxRetries)
  have ok: "responseResult (okFetch (httpRequestOf ?s \<lparr>opt_method = ''POST'', opt_path = ''/messages'',
           opt_body = Some ?creq, opt_headers = None\<rparr>) 0) = Inr (Some mockMessage)"
    by (simp add: okFetch_def responseResult_ok)
  note sent = createMessage_first_success[where r = "\<lambda>k. 0" and f = okFetch, OF valid budget ok]
  show "fst (send ?s dec okFetch (\<lambda>k. 0) (textMessage ''room-123'' (replicate 8000 CHR ''x'')))
      = Inr (Some mockMessage)" for dec
    using sent(1) by (simp add: send_def long_text_request)
  show "length (fetched (snd (send ?s dec okFetch (\<lambda>k. 0)
      (textMessage ''room-123'' (replicate 8000 CHR ''x''))))) = 1" for dec
    using sent(2) by (simp add: send_def long_text_request)
  show "sendToRoom ?s okFetch (\<lambda>k. 0) ''room-123'' (replicate 8000 CHR ''x'') None
      = (Inl (Error ''Message text exceeds maximum size of 7439 bytes''), noTrace)"
    by (simp add: sendToRoom_def createMessage_def validateMessageRequest_def emptyRequest_def
        truthy_def byteLength_def)
qed

section \<open>Properties of webhook.ts\<close>

lemma enrich_not_null: "enrich h f p \<noteq> Inr None"
  by (simp add: enrich_def split: sum.split)

lemma handleWebhook_accepted:
  assumes "wh_resource p = ''messages''" and "wh_event p = ''created''"
    and "Some (data_personId (wh_data p)) \<noteq> handler_botId h"
  shows "handleWebhook h f p =
     (if data_roomType (wh_data p) = ''direct'' \<and> \<not> isAllowedSender h (wh_data p)
      then Inr None else enrich h f p)"
  using assms by (simp add: handleWebhook_def enrich_def)

text \<open>
  Claim C8. For a \<open>messages\<close>/\<open>created\<close> notification that is not the bot's own: in a
  \<open>direct\<close> conversation, policy \<open>allow\<close> proceeds to enrichment and normalization, policy
  \<open>deny\<close> returns null, and policy \<open>allowlisted\<close> proceeds exactly when the allow-list is
  present, not empty, and contains the sender's person id or email, returning null
  otherwise; in any other conversation type the policy is not consulted. Proceeding
  never yields null.
\<close>

theorem handleWebhook_dm_policy:
  assumes "wh_resource p = ''messages''" and "wh_event p = ''created''"
    and "Some (data_personId (wh_data p)) \<noteq> handler_botId h"
  shows "(data_roomType (wh_data p) = ''direct'' \<longrightarrow>
           (dmPolicy (handler_config h) = Some Allow \<longrightarrow> handleWebhook h f p = enrich h f p)
         \<and> (dmPolicy (handler_config h) = Some Deny \<longrightarrow> handleWebhook h f p = Inr None)
         \<and> (dmPolicy (handler_config h) = Some Allowlisted \<longrightarrow>
              handleWebhook h f p =
                (if \<exists>xs. allowFrom (handler_config h) = Some xs \<and> xs \<noteq> []
                          \<and> (data_personId (wh_data p) \<in> set xs
                              \<or> data_personEmail (wh_data p) \<in> set xs)
                 then enrich h f p else Inr None)))
       \<and> (data_roomType (wh_data p) \<noteq> ''direct'' \<longrightarrow> handleWebhook h f p = enrich h f p)
       \<and> enrich h f p \<noteq> Inr None"
proof (intro conjI impI)
  note acc = handleWebhook_accepted[OF assms, of f]
  show "handleWebhook h f p = enrich h f p"
    if "data_roomType (wh_data p) = ''direct''" "dmPolicy (handler_config h) = Some Allow"
    using that acc by (simp add: isAllowedSender_def)
  show "handleWebhook h f p = Inr None"
    if "data_roomType (wh_data p) = ''direct''" "dmPolicy (handler_config h) = Some Deny"
    using that acc by (simp add: isAllowedSender_def)
  show "handleWebhook h f p =
      (if \<exists>xs. allowFrom (handler_config h) = Some xs \<and> xs \<noteq> []
                \<and> (data_personId (wh_data p) \<in> set xs \<or> data_personEmail (wh_data p) \<in> set xs)
       then enrich h f p else Inr None)"
    if "data_roomType (wh_data p) = ''direct''" "dmPolicy (handler_config h) = Some Allowlisted"
    using that acc by (auto simp: isAllowedSender_def split: option.splits list.splits)
  show "handleWebhook h f p = enrich h f p" if "data_roomType (wh_data p) \<noteq> ''direct''"
    using that acc by simp
  show "enrich h f p \<noteq> Inr None"
    by (rule enrich_not_null)
qed

lemma enrich_ok: "enrich (testHandler c) okFetch p = Inr (Some (normalizeMessage mockMessage))"
  by (simp add: enrich_def fetchMessage_def okFetch_def okResponse_def)

theorem handleWebhook_dm_policy_witness:
  "handleWebhook (testHandler testConfig) okFetch directPayload
     = Inr (Some (normalizeMessage mockMessage))
   \<and> handleWebhook (testHandler (testConfig\<lparr>dmPolicy := Some Deny\<rparr>)) okFetch directPayload = Inr None
   \<and> handleWebhook (testHandler (testConfig\<lparr>dmPolicy := Some Allowlisted, allowFrom := Some []\<rparr>))
       okFetch directPayload = Inr None
   \<and> handleWebhook
       (testHandler (testConfig\<lparr>dmPolicy := Some Allowlisted, allowFrom := Some [''person-123'']\<rparr>))
       okFetch directPayload = Inr (Some (normalizeMessage mockMessage))
   \<and> handleWebhook (testHandler (testConfig\<lparr>dmPolicy := Some Deny\<rparr>)) okFetch createPayload
       = Inr (Some (normalizeMessage mockMessage))"
proof -
  have acc: "wh_resource directPayload = ''messages''" "wh_event directPayload = ''created''"
    "Some (data_personId (wh_data directPayload)) \<noteq> handler_botId (testHandler c)"
    "wh_resource createPayload = ''messages''" "wh_event createPayload = ''created''"
    "Some (data_personId (wh_data createPayload)) \<noteq> handler_botId (testHandler c)" for c
    by (simp_all add: directPayload_def createPayload_def testHandler_def)
  have d: "data_roomType (wh_data directPayload) = ''direct''"
    "data_roomType (wh_data createPayload) \<noteq> ''direct''"
    "data_personId (wh_data directPayload) = ''person-123''"
    by (simp_all add: directPayload_def createPayload_def)
  have cfg: "handler_config (testHandler c) = c" for c
    by (simp add: testHandler_def newWebexWebhookHandler_def)
  have 1: "handleWebhook (testHandler testConfig) okFetch directPayload
      = Inr (Some (normalizeMessage mockMessage))"
    using handleWebhook_dm_policy[OF acc(1,2,3), of testConfig okFetch] d
    by (simp add: cfg enrich_ok testConfig_def)
  have 2: "handleWebhook (testHandler (testConfig\<lparr>dmPolicy := Some Deny\<rparr>)) okFetch directPayload
      = Inr None"
    using handleWebhook_dm_policy[OF acc(1,2,3), of "testConfig\<lparr>dmPolicy := Some Deny\<rparr>" okFetch] d
    by (simp add: cfg)
  have 3: "handleWebhook (testHandler (testConfig\<lparr>dmPolicy := Some Allowlisted, allowFrom := Some []\<rparr>))
      okFetch directPayload = Inr None"
    using handleWebhook_dm_policy[OF acc(1,2,3),
        of "testConfig\<lparr>dmPolicy := Some Allowlisted, allowFrom := Some []\<rparr>" okFetch] d
    by (simp add: cfg)
  have 4: "handleWebhook
      (testHandler (testConfig\<lparr>dmPolicy := Some Allowlisted, allowFrom := Some [''person-123'']\<rparr>))
      okFetch directPayload = Inr (Some (normalizeMessage mockMessage))"
    using handleWebhook_dm_policy[OF acc(1,2,3),
        of "testConfig\<lparr>dmPolicy := Some Allowlisted, allowFrom := Some [''person-123'']\<rparr>" okFetch] d
    by (simp add: cfg enrich_ok)
  have 5: "handleWebhook (testHandler (testConfig\<lparr>dmPolicy := Some Deny\<rparr>)) okFetch createPayload
      = Inr (Some (normalizeMessage mockMessage))"
    using handleWebhook_dm_policy[OF acc(4,5,6), of "testConfig\<lparr>dmPolicy := Some Deny\<rparr>" okFetch] d
    by (simp add: enrich_ok)
  from 1 2 3 4 5 show ?thesis by (intro conjI)
qed


lemma hexDigest_length: "length (hexDigest w) = 40"
  by (simp add: hexDigest_def)

text \<open>
  Claim C2, as stated, fails on the code: with the secret of the test suite configured
  and the signature \<open>short\<close>, \<^verbatim>\<open>verifySignature\<close> does not return false. Whatever the
  keyed hash computes, \<^verbatim>\<open>crypto.timingSafeEqual\<close> throws a \<^verbatim>\<open>RangeError\<close>, which the function
  does not catch.
\<close>

theorem verifySignature_length_mismatch_counterexample:
  "\<forall>hmac stringify.
     verifySignature hmac stringify (testHandler secretConfig) createPayload ''short'' None
       = Inl (RangeError ''Input buffers must have the same byte length'')"
  by (simp add: verifySignature_def timingSafeEqual_def hexDigest_length testHandler_def
      newWebexWebhookHandler_def secretConfig_def truthy_def Let_def)

text \<open>
  Claim C2, amended. With a secret configured and a signature whose byte length differs
  from that of the hex-encoded digest, \<^verbatim>\<open>verifySignature\<close> throws the \<^verbatim>\<open>RangeError\<close> of
  \<^verbatim>\<open>crypto.timingSafeEqual\<close> to its caller; it does not return true, so the mismatch
  never passes.
\<close>

theorem verifySignature_length_mismatch:
  assumes "truthy (webhookSecret (handler_config h))"
    and "length signature \<noteq>
           length (hexDigest (hmac (the (webhookSecret (handler_config h)))
             (case originalBody of Some body \<Rightarrow> body | None \<Rightarrow> stringify p)))"
  shows "verifySignature hmac stringify h p signature originalBody
           = Inl (RangeError ''Input buffers must have the same byte length'')
         \<and> verifySignature hmac stringify h p signature originalBody \<noteq> Inr True"
  using assms by (simp add: verifySignature_def timingSafeEqual_def Let_def)

theorem verifySignature_length_mismatch_witness:
  "\<forall>hmac stringify.
     verifySignature hmac stringify (testHandler secretConfig) createPayload
         ''00000000000000000000000000000000000000000'' (Some ''{}'')
       = Inl (RangeError ''Input buffers must have the same byte length'')"
proof (intro allI)
  fix hmac :: "string \<Rightarrow> string \<Rightarrow> 160 word" and stringify :: "WebexWebhookPayload \<Rightarrow> string"
  have s: "truthy (webhookSecret (handler_config (testHandler secretConfig)))"
    by (simp add: testHandler_def newWebexWebhookHandler_def secretConfig_def truthy_def)
  have l: "length ''00000000000000000000000000000000000000000'' \<noteq>
      length (hexDigest (hmac (the (webhookSecret (handler_config (testHandler secretConfig))))
        (case Some ''{}'' of Some body \<Rightarrow> body | None \<Rightarrow> stringify createPayload)))"
    by (simp add: hexDigest_length)
  from verifySignature_length_mismatch[where hmac = hmac and stringify = stringify
      and p = createPayload and originalBody = "Some ''{}''", OF s l]
  show "verifySignature hmac stringify (testHandler secretConfig) createPayload
         ''00000000000000000000000000000000000000000'' (Some ''{}'')
       = Inl (RangeError ''Input buffers must have the same byte length'')"
    by (rule conjunct1)
qed


lemma handler_initialize_ok: "handler_initialize (newWebexWebhookHandler c) botFetch = Inr (testHandler c)"
  by (simp add: handler_initialize_def getBotInfo_def botFetch_def testHandler_def mockBotInfo_def)

lemma secretChannel_eq:
  "secretChannel =
     \<lparr>ch_config = Some (mergeDefaults secretConfig),
      ch_sender = Some (newWebexSender (mergeDefaults secretConfig)),
      ch_webhookHandler = Some (testHandler (mergeDefaults secretConfig)),
      ch_messageHandlers = [], ch_initialized = True\<rparr>"
  by (simp add: secretChannel_def initialize_def validateConfig_def secretConfig_def testConfig_def
      handler_initialize_ok newWebexChannel_def Let_def nonEmpty_def)

text \<open>
  Claim C1 does not hold of the code. On a channel initialized with a webhook secret,
  \<^verbatim>\<open>handleWebhook\<close> returns the envelope of a group notification for every signature
  argument, present or absent: the signature never reaches \<^verbatim>\<open>verifySignature\<close>.
\<close>

theorem handleWebhook_ignores_signature:
  "truthy (webhookSecret (handler_config (the (ch_webhookHandler secretChannel))))
   \<and> (\<forall>signature.
        channel_handleWebhook secretChannel okFetch (\<lambda>h e. Inr ()) createPayload signature
          = (Inr (Some (normalizeMessage mockMessage)), []))"
proof (intro conjI allI)
  show "truthy (webhookSecret (handler_config (the (ch_webhookHandler secretChannel))))"
    by (simp add: secretChannel_eq testHandler_def newWebexWebhookHandler_def mergeDefaults_def
        secretConfig_def truthy_def)
  have acc: "wh_resource createPayload = ''messages''" "wh_event createPayload = ''created''"
    "Some (data_personId (wh_data createPayload)) \<noteq> handler_botId (testHandler c)"
    "data_roomType (wh_data createPayload) \<noteq> ''direct''" for c
    by (simp_all add: createPayload_def testHandler_def)
  have "handleWebhook (testHandler c) okFetch createPayload
      = Inr (Some (normalizeMessage mockMessage))" for c
    using handleWebhook_accepted[OF acc(1,2,3), of c okFetch] acc(4) by (simp add: enrich_ok)
  then show "channel_handleWebhook secretChannel okFetch (\<lambda>h e. Inr ()) createPayload signature
      = (Inr (Some (normalizeMessage mockMessage)), [])" for signature
    by (simp add: channel_handleWebhook_def ensureInitialized_def secretChannel_eq notifyHandlers_def)
qed

section \<open>Properties of channel.ts\<close>

lemma ensureInitialized_fails:
  "\<not> ch_initialized ch \<Longrightarrow> ensureInitialized ch = Inl notInitializedError"
  by (simp add: ensureInitialized_def notInitializedError_def)

lemma shutdown_fresh: "shutdown ch = newWebexChannel"
  by (cases ch) (simp add: shutdown_def newWebexChannel_def)

lemma onMessage_handlers:
  "ch_messageHandlers (foldl onMessage ch hs) = ch_messageHandlers ch @ hs"
  by (induction hs arbitrary: ch) (simp_all add: onMessage_def)

lemma initialize_handlers:
  "ch_messageHandlers (snd (initialize v fb ch cfg)) = ch_messageHandlers ch"
  by (simp add: initialize_def Let_def split: sum.split)

lemma channel_handleWebhook_notified:
  "fst ` set (snd (channel_handleWebhook ch f invoke p sig)) \<subseteq> set (ch_messageHandlers ch)"
  by (auto simp: channel_handleWebhook_def notifyHandlers_def split: sum.splits option.splits)

text \<open>
  Claim C9. On a channel that is not initialized, \<^verbatim>\<open>send\<close>, \<^verbatim>\<open>handleWebhook\<close>,
  \<^verbatim>\<open>registerWebhooks\<close>, \<^verbatim>\<open>getSender\<close> and \<^verbatim>\<open>getWebhookHandler\<close> fail at once with the
  not-initialized error, without a call to the network or to a subscriber.
  \<^verbatim>\<open>shutdown\<close> empties the subscriber list, drops sender, webhook handler and
  configuration, and leaves the channel in the state of a fresh instance. After a
  shutdown and a re-initialization, with subscribers \<open>hs1\<close> registered between the two and
  \<open>hs2\<close> after, a webhook notifies no subscriber other than those: one registered before
  the shutdown (and not again) is never called.
\<close>

theorem channel_lifecycle:
  "(\<not> ch_initialized ch \<longrightarrow>
      channel_send ch dec f r m = (Inl notInitializedError, noTrace)
      \<and> channel_handleWebhook ch f invoke p sig = (Inl notInitializedError, [])
      \<and> channel_registerWebhooks ch reg = Inl notInitializedError
      \<and> getSender ch = Inl notInitializedError
      \<and> getWebhookHandler ch = Inl notInitializedError)
   \<and> ch_messageHandlers (shutdown ch) = [] \<and> ch_sender (shutdown ch) = None
   \<and> ch_webhookHandler (shutdown ch) = None \<and> ch_config (shutdown ch) = None
   \<and> \<not> ch_initialized (shutdown ch) \<and> shutdown ch = newWebexChannel
   \<and> (h \<notin> set hs1 \<union> set hs2 \<longrightarrow>
        h \<notin> fst ` set (snd (channel_handleWebhook
          (foldl onMessage (snd (initialize v fb (foldl onMessage (shutdown ch) hs1) cfg)) hs2)
          f invoke p sig)))"
proof (intro conjI impI)
  assume u: "\<not> ch_initialized ch"
  note e = ensureInitialized_fails[OF u]
  show "channel_send ch dec f r m = (Inl notInitializedError, noTrace)"
    by (simp add: channel_send_def e)
  show "channel_handleWebhook ch f invoke p sig = (Inl notInitializedError, [])"
    by (simp add: channel_handleWebhook_def e)
  show "channel_registerWebhooks ch reg = Inl notInitializedError"
    by (simp add: channel_registerWebhooks_def e)
  show "getSender ch = Inl notInitializedError"
    by (simp add: getSender_def e)
  show "getWebhookHandler ch = Inl notInitializedError"
    by (simp add: getWebhookHandler_def e)
next
  show "ch_messageHandlers (shutdown ch) = []" "ch_sender (shutdown ch) = None"
    "ch_webhookHandler (shutdown ch) = None" "ch_config (shutdown ch) = None"
    "\<not> ch_initialized (shutdown ch)"
    by (simp_all add: shutdown_def)
  show "shutdown ch = newWebexChannel"
    by (rule shutdown_fresh)
next
  assume h: "h \<notin> set hs1 \<union> set hs2"
  let ?ch = "foldl onMessage (snd (initialize v fb (foldl onMessage (shutdown ch) hs1) cfg)) hs2"
  have "ch_messageHandlers ?ch = hs1 @ hs2"
    by (simp add: onMessage_handlers initialize_handlers shutdown_def)
  then have "fst ` set (snd (channel_handleWebhook ?ch f invoke p sig)) \<subseteq> set hs1 \<union> set hs2"
    using channel_handleWebhook_notified[of ?ch f invoke p sig] by simp
  with h show "h \<notin> fst ` set (snd (channel_handleWebhook ?ch f invoke p sig))"
    by blast
qed

lemma reinitialized:
  "snd (initialize (\<lambda>url. True) botFetch newWebexChannel testConfig) =
     \<lparr>ch_config = Some (mergeDefaults testConfig),
      ch_sender = Some (newWebexSender (mergeDefaults testConfig)),
      ch_webhookHandler = Some (testHandler (mergeDefaults testConfig)),
      ch_messageHandlers = [], ch_initialized = True\<rparr>"
  by (simp add: initialize_def validateConfig_def testConfig_def
      handler_initialize_ok newWebexChannel_def Let_def nonEmpty_def)

theorem channel_lifecycle_witness:
  "snd (channel_handleWebhook (onMessage secretChannel 7) okFetch (\<lambda>h e. Inr ()) createPayload None)
     = [(7, Inr ())]
   \<and> channel_handleWebhook
       (snd (initialize (\<lambda>url. True) botFetch (shutdown (onMessage secretChannel 7)) testConfig))
       okFetch (\<lambda>h e. Inr ()) createPayload None
     = (Inr (Some (normalizeMessage mockMessage)), [])
   \<and> 7 \<notin> fst ` set (snd (channel_handleWebhook
       (snd (initialize (\<lambda>url. True) botFetch (shutdown (onMessage secretChannel 7)) testConfig))
       okFetch (\<lambda>h e. Inr ()) createPayload None))
   \<and> channel_send (shutdown (onMessage secretChannel 7)) base64ToString okFetch (\<lambda>k. 0)
       (textMessage ''room-123'' ''Hello!'') = (Inl notInitializedError, noTrace)
   \<and> getSender (shutdown (onMessage secretChannel 7)) = Inl notInitializedError"
proof -
  have acc: "wh_resource createPayload = ''messages''" "wh_event createPayload = ''created''"
    "Some (data_personId (wh_data createPayload)) \<noteq> handler_botId (testHandler c)"
    "data_roomType (wh_data createPayload) \<noteq> ''direct''" for c
    by (simp_all add: createPayload_def testHandler_def)
  have hw: "handleWebhook (testHandler c) okFetch createPayload
      = Inr (Some (normalizeMessage mockMessage))" for c
    using handleWebhook_accepted[OF acc(1,2,3), of c okFetch] acc(4) by (simp add: enrich_ok)
  have 1: "snd (channel_handleWebhook (onMessage secretChannel 7) okFetch (\<lambda>h e. Inr ())
      createPayload None) = [(7, Inr ())]"
    by (simp add: channel_handleWebhook_def ensureInitialized_def secretChannel_eq onMessage_def
        notifyHandlers_def hw)
  have 2: "channel_handleWebhook
       (snd (initialize (\<lambda>url. True) botFetch (shutdown (onMessage secretChannel 7)) testConfig))
       okFetch (\<lambda>h e. Inr ()) createPayload None
     = (Inr (Some (normalizeMessage mockMessage)), [])"
    by (simp add: shutdown_fresh reinitialized channel_handleWebhook_def ensureInitialized_def
        notifyHandlers_def hw)
  note t = channel_lifecycle[where ch = "onMessage secretChannel 7" and h = 7 and ?hs1.0 = "[]"
      and ?hs2.0 = "[]" and v = "\<lambda>url. True" and fb = botFetch and cfg = testConfig
      and f = okFetch and invoke = "\<lambda>h e. Inr ()" and p = createPayload and sig = None
      and dec = base64ToString and r = "\<lambda>k. 0" and m = "textMessage ''room-123'' ''Hello!''"
      and reg = "\<lambda>h. Inr ()"]
  have pre: "(7::nat) \<notin> set [] \<union> set []" by simp
  from t pre have "7 \<notin> fst ` set (snd (channel_handleWebhook
       (foldl onMessage (snd (initialize (\<lambda>url. True) botFetch
          (foldl onMessage (shutdown (onMessage secretChannel 7)) []) testConfig)) [])
       okFetch (\<lambda>h e. Inr ()) createPayload None))"
    by blast
  then have 3: "7 \<notin> fst ` set (snd (channel_handleWebhook
       (snd (initialize (\<lambda>url. True) botFetch (shutdown (onMessage secretChannel 7)) testConfig))
       okFetch (\<lambda>h e. Inr ()) createPayload None))"
    by simp
  note u = channel_lifecycle[where ch = "shutdown (onMessage secretChannel 7)" and h = 7
      and ?hs1.0 = "[]" and ?hs2.0 = "[]" and v = "\<lambda>url. True" and fb = botFetch
      and cfg = testConfig and f = okFetch and invoke = "\<lambda>h e. Inr ()" and p = createPayload
      and sig = None and dec = base64ToString and r = "\<lambda>k. 0"
      and m = "textMessage ''room-123'' ''Hello!''" and reg = "\<lambda>h. Inr ()"]
  have "\<not> ch_initialized (shutdown (onMessage secretChannel 7))"
    by (simp add: shutdown_def)
  with u have 4: "channel_send (shutdown (onMessage secretChannel 7)) base64ToString okFetch (\<lambda>k. 0)
       (textMessage ''room-123'' ''Hello!'') = (Inl notInitializedError, noTrace)"
    and 5: "getSender (shutdown (onMessage secretChannel 7)) = Inl notInitializedError"
    by blast+
  from 1 2 3 4 5 show ?thesis by (intro conjI)
qed

end
